theory Spec2Isabelle
  imports Main "HOL-Library.Sublist"
begin

section \<open>Strings\<close>

text \<open>
  Python text is modelled as \<^typ>\<open>string\<close>. The source's literals contain pictographs; they
  are written here as their UTF-8 bytes, so a pictograph is three or four characters of the
  model. Nothing below depends on the length of such a literal.
\<close>

definition newline :: string where
  "newline = [CHR 0x0A]"

definition cross_mark :: string where
  "cross_mark = [CHR 0xE2, CHR 0x9D, CHR 0x8C]"

definition bar_chart :: string where
  "bar_chart = [CHR 0xF0, CHR 0x9F, CHR 0x93, CHR 0x8A]"

definition memo :: string where
  "memo = [CHR 0xF0, CHR 0x9F, CHR 0x93, CHR 0x9D]"

definition key_sign :: string where
  "key_sign = [CHR 0xF0, CHR 0x9F, CHR 0x94, CHR 0x91]"

definition chart_up :: string where
  "chart_up = [CHR 0xF0, CHR 0x9F, CHR 0x93, CHR 0x88]"

definition books :: string where
  "books = [CHR 0xF0, CHR 0x9F, CHR 0x93, CHR 0x9A]"

definition writing_hand :: string where
  "writing_hand = [CHR 0xE2, CHR 0x9C, CHR 0x8D, CHR 0xEF, CHR 0xB8, CHR 0x8F]"

definition dart :: string where
  "dart = [CHR 0xF0, CHR 0x9F, CHR 0x8E, CHR 0xAF]"

definition page :: string where
  "page = [CHR 0xF0, CHR 0x9F, CHR 0x93, CHR 0x84]"

definition magnifier :: string where
  "magnifier = [CHR 0xF0, CHR 0x9F, CHR 0x94, CHR 0x8D]"

definition robot :: string where
  "robot = [CHR 0xF0, CHR 0x9F, CHR 0xA4, CHR 0x96]"

definition laptop :: string where
  "laptop = [CHR 0xF0, CHR 0x9F, CHR 0x92, CHR 0xBB]"

definition masks :: string where
  "masks = [CHR 0xF0, CHR 0x9F, CHR 0x8E, CHR 0xAD]"

definition bullet :: string where
  "bullet = [CHR 0xE2, CHR 0x80, CHR 0xA2]"

definition speech :: string where
  "speech = [CHR 0xF0, CHR 0x9F, CHR 0x92, CHR 0xAC]"

definition wave :: string where
  "wave = [CHR 0xF0, CHR 0x9F, CHR 0x91, CHR 0x8B]"

definition clipboard :: string where
  "clipboard = [CHR 0xF0, CHR 0x9F, CHR 0x93, CHR 0x8B]"

definition test_tube :: string where
  "test_tube = [CHR 0xF0, CHR 0x9F, CHR 0xA7, CHR 0xAA]"

definition check_mark :: string where
  "check_mark = [CHR 0xE2, CHR 0x9C, CHR 0x85]"

definition rocket :: string where
  "rocket = [CHR 0xF0, CHR 0x9F, CHR 0x9A, CHR 0x80]"

definition wrench :: string where
  "wrench = [CHR 0xF0, CHR 0x9F, CHR 0x94, CHR 0xA7]"

definition quote :: string where
  "quote = [CHR 0x27]"

text \<open>\<^verbatim>\<open>str(n)\<close> for an integer: decimal digits, with a minus sign below zero.\<close>

definition digit_char :: "nat \<Rightarrow> char" where
  "digit_char d = ''0123456789'' ! d"

fun digits :: "nat \<Rightarrow> string" where
  "digits n = (if n < 10 then [digit_char n] else digits (n div 10) @ [digit_char (n mod 10)])"

declare digits.simps [simp del]

definition str_int :: "int \<Rightarrow> string" where
  "str_int i = (if i < 0 then CHR ''-'' # digits (nat (- i)) else digits (nat i))"

text \<open>\<^verbatim>\<open>sep.join(xs)\<close>.\<close>

fun join :: "string \<Rightarrow> string list \<Rightarrow> string" where
  "join sep [] = []"
| "join sep [x] = x"
| "join sep (x # y # ys) = x @ sep @ join sep (y # ys)"

text \<open>
  \<^verbatim>\<open>s.upper()\<close> on ASCII text, where it changes the letters a to z and nothing else. It is not
  \<^verbatim>\<open>str.upper\<close> on letters beyond ASCII; statements that depend on it are about ASCII text.
  The strings it is applied to in the source are the task types, which the program itself
  writes in plain lower-case letters and underscores.
\<close>

definition ascii :: "string \<Rightarrow> bool" where
  "ascii s = list_all (\<lambda>c. (of_char c :: nat) < 128) s"

definition upper_char :: "char \<Rightarrow> char" where
  "upper_char c =
     (case map_of (zip ''abcdefghijklmnopqrstuvwxyz'' ''ABCDEFGHIJKLMNOPQRSTUVWXYZ'') c of
        Some u \<Rightarrow> u
      | None \<Rightarrow> c)"

definition upper :: "string \<Rightarrow> string" where
  "upper s = map upper_char s"

definition lower_char :: "char \<Rightarrow> char" where
  "lower_char c =
     (case map_of (zip ''ABCDEFGHIJKLMNOPQRSTUVWXYZ'' ''abcdefghijklmnopqrstuvwxyz'') c of
        Some l \<Rightarrow> l
      | None \<Rightarrow> c)"

definition lower :: "string \<Rightarrow> string" where
  "lower s = map lower_char s"

text \<open>White space, as \<^verbatim>\<open>str.isspace\<close> has it below code point 128.\<close>

definition is_space :: "char \<Rightarrow> bool" where
  "is_space c =
     (c \<in> set [CHR 0x20, CHR 0x09, CHR 0x0A, CHR 0x0B, CHR 0x0C, CHR 0x0D,
                CHR 0x1C, CHR 0x1D, CHR 0x1E, CHR 0x1F])"

text \<open>\<^verbatim>\<open>s.strip()\<close> and \<^verbatim>\<open>s.startswith(p)\<close>.\<close>

definition strip :: "string \<Rightarrow> string" where
  "strip s = rev (dropWhile is_space (rev (dropWhile is_space s)))"

definition startswith :: "string \<Rightarrow> string \<Rightarrow> bool" where
  "startswith p s = (take (length p) s = p)"

text \<open>
  \<^verbatim>\<open>s[:n]\<close> on text: the first \<open>n\<close> characters. A character of the source is one or more
  bytes here; the bytes from \<open>0x80\<close> to \<open>0xBF\<close> continue the character before them.
\<close>

definition is_continuation :: "char \<Rightarrow> bool" where
  "is_continuation c = (let n = (of_char c :: nat) in 128 \<le> n \<and> n < 192)"

fun take_chars :: "nat \<Rightarrow> string \<Rightarrow> string" where
  "take_chars n [] = []"
| "take_chars n (c # cs) =
     (if is_continuation c then c # take_chars n cs
      else (case n of 0 \<Rightarrow> [] | Suc m \<Rightarrow> c # take_chars m cs))"

text \<open>
  \<^verbatim>\<open>xs[start:]\<close>: a negative start counts from the end, and a start outside the list is
  clamped to it.
\<close>

definition slice_from :: "int \<Rightarrow> 'a list \<Rightarrow> 'a list" where
  "slice_from start xs =
     (let n = int (length xs);
          s = (if start < 0 then max 0 (start + n) else min start n)
      in drop (nat s) xs)"

text \<open>\<^verbatim>\<open>enumerate(xs, k)\<close>.\<close>

fun enumerate_from :: "int \<Rightarrow> 'a list \<Rightarrow> (int \<times> 'a) list" where
  "enumerate_from k [] = []"
| "enumerate_from k (x # xs) = (k, x) # enumerate_from (k + 1) xs"

section \<open>The result models of \<^verbatim>\<open>models.py\<close>\<close>

text \<open>
  An exception is a value. \<open>ValueError\<close> is the one the source raises itself;
  \<open>BackendUnavailable\<close> stands for any exception of the language-model library when the model
  cannot be reached, with the library's message; \<open>SchemaViolation\<close> is pydantic's validation
  error, with the names of the fields that failed, in declaration order; \<open>EOFError\<close> is what
  \<^verbatim>\<open>input()\<close> raises at the end of the input; \<open>TypeError\<close> is what a call with missing
  arguments raises, with its message. All of them are subclasses of
  \<^verbatim>\<open>Exception\<close>. An interrupt from the keyboard is not an \<^verbatim>\<open>Exception\<close> and is
  not modelled.
\<close>

datatype error =
    ValueError string
  | BackendUnavailable string
  | SchemaViolation "string list"
  | EOFError
  | TypeError string

record ResearchResult =
  topic :: string
  summary :: string
  key_points :: "string list"
  confidence_level :: string
  sources_needed :: "string list"

record CodeAnalysis =
  language :: string
  complexity_score :: int
  issues_found :: "string list"
  suggestions :: "string list"
  security_concerns :: "string list"

record CreativeContent =
  content_type :: string
  title :: string
  content :: string
  target_audience :: string
  tone :: string
  word_count :: int

text \<open>
  A candidate is what the language model sends back, before validation: every field may be
  missing. A field declared \<^verbatim>\<open>Field(...)\<close> is required; one declared with
  \<^verbatim>\<open>default_factory=list\<close> becomes the empty list when missing. The values are taken to
  have the declared Python type already.
\<close>

record raw_ResearchResult =
  raw_topic :: "string option"
  raw_summary :: "string option"
  raw_key_points :: "string list option"
  raw_confidence_level :: "string option"
  raw_sources_needed :: "string list option"

record raw_CodeAnalysis =
  raw_language :: "string option"
  raw_complexity_score :: "int option"
  raw_issues_found :: "string list option"
  raw_suggestions :: "string list option"
  raw_security_concerns :: "string list option"

record raw_CreativeContent =
  raw_content_type :: "string option"
  raw_title :: "string option"
  raw_content :: "string option"
  raw_target_audience :: "string option"
  raw_tone :: "string option"
  raw_word_count :: "int option"

definition required :: "string \<Rightarrow> 'a option \<Rightarrow> string list" where
  "required name v = (case v of None \<Rightarrow> [name] | Some _ \<Rightarrow> [])"

definition default_list :: "'a list option \<Rightarrow> 'a list" where
  "default_list v = (case v of None \<Rightarrow> [] | Some xs \<Rightarrow> xs)"

text \<open>\<^verbatim>\<open>key_points: List[str] = Field(..., min_items=3, max_items=5)\<close>\<close>

definition key_points_errors :: "string list option \<Rightarrow> string list" where
  "key_points_errors v =
     (case v of
        None \<Rightarrow> [''key_points'']
      | Some kp \<Rightarrow> if length kp < 3 \<or> 5 < length kp then [''key_points''] else [])"

definition ResearchResult_errors :: "raw_ResearchResult \<Rightarrow> string list" where
  "ResearchResult_errors raw =
     required ''topic'' (raw_topic raw) @
     required ''summary'' (raw_summary raw) @
     key_points_errors (raw_key_points raw) @
     required ''confidence_level'' (raw_confidence_level raw)"

definition validate_ResearchResult :: "raw_ResearchResult \<Rightarrow> error + ResearchResult" where
  "validate_ResearchResult raw =
     (case (raw_topic raw, raw_summary raw, raw_key_points raw, raw_confidence_level raw) of
        (Some t, Some s, Some kp, Some c) \<Rightarrow>
          if ResearchResult_errors raw = []
          then Inr \<lparr>topic = t, summary = s, key_points = kp, confidence_level = c,
                    sources_needed = default_list (raw_sources_needed raw)\<rparr>
          else Inl (SchemaViolation (ResearchResult_errors raw))
      | _ \<Rightarrow> Inl (SchemaViolation (ResearchResult_errors raw)))"

text \<open>\<^verbatim>\<open>complexity_score: int = Field(..., ge=1, le=10)\<close>\<close>

definition complexity_score_errors :: "int option \<Rightarrow> string list" where
  "complexity_score_errors v =
     (case v of
        None \<Rightarrow> [''complexity_score'']
      | Some n \<Rightarrow> if n < 1 \<or> 10 < n then [''complexity_score''] else [])"

definition CodeAnalysis_errors :: "raw_CodeAnalysis \<Rightarrow> string list" where
  "CodeAnalysis_errors raw =
     required ''language'' (raw_language raw) @
     complexity_score_errors (raw_complexity_score raw)"

definition validate_CodeAnalysis :: "raw_CodeAnalysis \<Rightarrow> error + CodeAnalysis" where
  "validate_CodeAnalysis raw =
     (case (raw_language raw, raw_complexity_score raw) of
        (Some l, Some n) \<Rightarrow>
          if CodeAnalysis_errors raw = []
          then Inr \<lparr>language = l, complexity_score = n,
                    issues_found = default_list (raw_issues_found raw),
                    suggestions = default_list (raw_suggestions raw),
                    security_concerns = default_list (raw_security_concerns raw)\<rparr>
          else Inl (SchemaViolation (CodeAnalysis_errors raw))
      | _ \<Rightarrow> Inl (SchemaViolation (CodeAnalysis_errors raw)))"

text \<open>Every field of \<^verbatim>\<open>CreativeContent\<close> is required, and none carries a constraint.\<close>

definition CreativeContent_errors :: "raw_CreativeContent \<Rightarrow> string list" where
  "CreativeContent_errors raw =
     required ''content_type'' (raw_content_type raw) @
     required ''title'' (raw_title raw) @
     required ''content'' (raw_content raw) @
     required ''target_audience'' (raw_target_audience raw) @
     required ''tone'' (raw_tone raw) @
     required ''word_count'' (raw_word_count raw)"

definition validate_CreativeContent :: "raw_CreativeContent \<Rightarrow> error + CreativeContent" where
  "validate_CreativeContent raw =
     (case (raw_content_type raw, raw_title raw, raw_content raw,
            raw_target_audience raw, raw_tone raw, raw_word_count raw) of
        (Some ct, Some ti, Some co, Some au, Some tn, Some wc) \<Rightarrow>
          Inr \<lparr>content_type = ct, title = ti, content = co, target_audience = au,
               tone = tn, word_count = wc\<rparr>
      | _ \<Rightarrow> Inl (SchemaViolation (CreativeContent_errors raw)))"

section \<open>The shared context of \<^verbatim>\<open>models.py\<close>\<close>

text \<open>
  A conversation entry is the dictionary that \<^verbatim>\<open>add_conversation\<close> builds, with the keys
  \<^verbatim>\<open>role\<close>, \<^verbatim>\<open>content\<close>, \<^verbatim>\<open>agent\<close> and \<^verbatim>\<open>timestamp\<close>.
\<close>

record ConversationEntry =
  entry_role :: string
  entry_content :: string
  entry_agent :: string
  entry_timestamp :: string

record TaskSummary =
  task_type :: string
  agents_used :: "string list"
  status :: string
  result_summary :: string
  timestamp :: string

datatype agent_result =
    Research ResearchResult
  | Code CodeAnalysis
  | Creative CreativeContent

record MultiAgentContext =
  conversation_history :: "ConversationEntry list"
  task_history :: "TaskSummary list"
  agent_results :: "string \<rightharpoonup> agent_result"
  session_id :: string

section \<open>The environment\<close>

text \<open>
  The coordinator is a language model that is given five tools. It answers with tool calls, each
  with the arguments the model chose, and in the end with the final text, or it fails. An
  argument that the tool declares with a default may be left out.
\<close>

datatype tool_call =
    Delegate_research string
  | Delegate_code_analysis string "string option"
  | Delegate_content_creation string "string option" "string option" "string option"
  | Get_task_history
  | Complex_research_analysis string

datatype tool_output =
    Out_research ResearchResult
  | Out_code CodeAnalysis
  | Out_creative CreativeContent
  | Out_text string

datatype agent = research_agent | code_agent | creative_agent | coordinator_agent

text \<open>
  The tools are coroutines. The library that runs the coordinator starts the calls of one answer
  of the model together and resumes each one when the specialist it awaits has answered; the
  program does not decide the order. One run of the coordinator is therefore described by a
  schedule: which call is started next, and which of the coroutines that wait (counted from 0 in
  the order in which they began to wait) is resumed next.
\<close>

datatype event = Start tool_call | Resume nat

text \<open>
  Everything the program does not decide itself: the clock, read for the \<open>k\<close>-th time, in the
  two renderings the source uses; what each specialist's language model answers to a prompt at
  the first and at the second attempt, when \<open>k\<close> runs have been made before (so the same prompt
  may be answered differently each time); the schedule of a run of the coordinator and its final
  text or failure; the text of a validation failure; and the message of the \<open>TypeError\<close> of
  \<^verbatim>\<open>RunContext(self.context)\<close>.
\<close>

record env =
  isoformat_now :: "nat \<Rightarrow> string"
  strftime_now :: "nat \<Rightarrow> string"
  research_model :: "nat \<Rightarrow> string \<Rightarrow> nat \<Rightarrow> error + raw_ResearchResult"
  code_model :: "nat \<Rightarrow> string \<Rightarrow> nat \<Rightarrow> error + raw_CodeAnalysis"
  creative_model :: "nat \<Rightarrow> string \<Rightarrow> nat \<Rightarrow> error + raw_CreativeContent"
  coordinator_model :: "nat \<Rightarrow> string \<Rightarrow> event list \<times> (error + string)"
  validation_text :: "string list \<Rightarrow> string"
  run_context_text :: string

text \<open>
  The state: the context object of the system at work, how often the clock has been read, the
  runs of a language model made so far, each with its prompt, everything written to the
  standard output, and the lines still to be read from the standard input.
\<close>

record world =
  ctx :: MultiAgentContext
  clock :: nat
  runs :: "(agent \<times> string) list"
  stdout :: string
  stdin :: "string list"

text \<open>\<^verbatim>\<open>str(e)\<close>\<close>

fun str_error :: "env \<Rightarrow> error \<Rightarrow> string" where
  "str_error E (ValueError m) = m"
| "str_error E (BackendUnavailable m) = m"
| "str_error E (SchemaViolation fs) = validation_text E fs"
| "str_error E EOFError = ''EOF when reading a line''"
| "str_error E (TypeError m) = m"

subsection \<open>The methods of \<^verbatim>\<open>MultiAgentContext\<close>\<close>

definition MultiAgentContext_init :: "env \<Rightarrow> nat \<Rightarrow> MultiAgentContext" where
  "MultiAgentContext_init E k =
     \<lparr>conversation_history = [], task_history = [], agent_results = Map.empty,
      session_id = strftime_now E k\<rparr>"

definition add_conversation :: "env \<Rightarrow> string \<Rightarrow> string \<Rightarrow> string \<Rightarrow> world \<Rightarrow> world" where
  "add_conversation E role content' agent_name w =
     w\<lparr>ctx := (ctx w)\<lparr>conversation_history := conversation_history (ctx w) @
            [\<lparr>entry_role = role, entry_content = content', entry_agent = agent_name,
              entry_timestamp = isoformat_now E (clock w)\<rparr>]\<rparr>,
       clock := Suc (clock w)\<rparr>"

definition add_task_result :: "TaskSummary \<Rightarrow> world \<Rightarrow> world" where
  "add_task_result task_summary w =
     w\<lparr>ctx := (ctx w)\<lparr>task_history := task_history (ctx w) @ [task_summary]\<rparr>\<rparr>"

definition store_agent_result :: "string \<Rightarrow> agent_result \<Rightarrow> world \<Rightarrow> world" where
  "store_agent_result agent_name result w =
     w\<lparr>ctx := (ctx w)\<lparr>agent_results := (agent_results (ctx w))(agent_name \<mapsto> result)\<rparr>\<rparr>"

definition render_entry :: "ConversationEntry \<Rightarrow> string" where
  "render_entry entry =
     ''['' @ entry_agent entry @ ''] '' @ entry_role entry @ '': '' @ entry_content entry"

definition get_recent_context :: "MultiAgentContext \<Rightarrow> int \<Rightarrow> string" where
  "get_recent_context c limit =
     (let recent = (if conversation_history c \<noteq> []
                    then slice_from (- limit) (conversation_history c) else [])
      in join newline (map render_entry recent))"

text \<open>
  \<^verbatim>\<open>TaskSummary(...)\<close>: the four fields given, and the timestamp from the clock.
\<close>

definition TaskSummary_init ::
  "env \<Rightarrow> string \<Rightarrow> string list \<Rightarrow> string \<Rightarrow> string \<Rightarrow> world \<Rightarrow> TaskSummary \<times> world" where
  "TaskSummary_init E ty agents st res w =
     (\<lparr>task_type = ty, agents_used = agents, status = st, result_summary = res,
       timestamp = isoformat_now E (clock w)\<rparr>,
      w\<lparr>clock := Suc (clock w)\<rparr>)"

subsection \<open>Formatting\<close>

definition format_research_result :: "ResearchResult \<Rightarrow> string" where
  "format_research_result result =
     (let output = bar_chart @ '' Topic: '' @ topic result @ newline;
          output = output @ memo @ '' Summary: '' @ summary result @ newline;
          output = output @ key_sign @ '' Key Points:'' @ newline;
          output = foldl (\<lambda>out (i, point). out @ ''   '' @ str_int i @ ''. '' @ point @ newline)
                     output (enumerate_from 1 (key_points result));
          output = output @ chart_up @ '' Confidence: '' @ confidence_level result @ newline;
          output = (if sources_needed result \<noteq> []
                    then output @ books @ '' Recommended Sources: '' @
                         join '', '' (sources_needed result) @ newline
                    else output)
      in output)"

definition format_creative_result :: "CreativeContent \<Rightarrow> string" where
  "format_creative_result result =
     (let output = writing_hand @ ''  Content Type: '' @ content_type result @ newline;
          output = output @ memo @ '' Title: '' @ title result @ newline;
          output = output @ dart @ '' Audience: '' @ target_audience result @
                   '' | Tone: '' @ tone result @ newline;
          output = output @ bar_chart @ '' Word Count: '' @ str_int (word_count result) @ newline;
          output = output @ page @ '' Content:'' @ newline @ content result @ newline
      in output)"

section \<open>The agents and tools of \<^verbatim>\<open>agents.py\<close>\<close>

subsection \<open>One run of a specialist\<close>

text \<open>
  \<^verbatim>\<open>agent.run(prompt, deps=ctx.deps)\<close> on an agent declared with an \<^verbatim>\<open>output_type\<close>: the
  run is recorded, the model answers, and the answer is validated against the output type. When
  the answer does not validate, the library asks the model once more; the run returns the typed
  result, or raises when the model cannot be reached or the second answer does not validate
  either.
\<close>

definition answered :: "(nat \<Rightarrow> error + 'raw) \<Rightarrow> ('raw \<Rightarrow> error + 'a) \<Rightarrow> error + 'a" where
  "answered answer validate =
     (case answer 0 of
        Inl e \<Rightarrow> Inl e
      | Inr raw \<Rightarrow>
          (case validate raw of
             Inr r \<Rightarrow> Inr r
           | Inl v \<Rightarrow> (case answer 1 of Inl e \<Rightarrow> Inl e | Inr raw' \<Rightarrow> validate raw')))"

definition record_run :: "agent \<Rightarrow> string \<Rightarrow> world \<Rightarrow> world" where
  "record_run a prompt w = w\<lparr>runs := runs w @ [(a, prompt)]\<rparr>"

definition research_agent_run ::
  "env \<Rightarrow> string \<Rightarrow> world \<Rightarrow> (error + ResearchResult) \<times> world" where
  "research_agent_run E prompt w =
     (answered (research_model E (length (runs w)) prompt) validate_ResearchResult,
      record_run research_agent prompt w)"

definition code_agent_run ::
  "env \<Rightarrow> string \<Rightarrow> world \<Rightarrow> (error + CodeAnalysis) \<times> world" where
  "code_agent_run E prompt w =
     (answered (code_model E (length (runs w)) prompt) validate_CodeAnalysis,
      record_run code_agent prompt w)"

definition creative_agent_run ::
  "env \<Rightarrow> string \<Rightarrow> world \<Rightarrow> (error + CreativeContent) \<times> world" where
  "creative_agent_run E prompt w =
     (answered (creative_model E (length (runs w)) prompt) validate_CreativeContent,
      record_run creative_agent prompt w)"

subsection \<open>The tools\<close>

text \<open>
  Each tool as the source writes it, run from its first line to its last with nothing else
  happening while it awaits its specialist.
\<close>

definition delegate_research ::
  "env \<Rightarrow> string \<Rightarrow> world \<Rightarrow> (error + ResearchResult) \<times> world" where
  "delegate_research E topic' w0 =
     (let w1 = add_conversation E ''system'' (''Delegating research: '' @ topic') ''coordinator'' w0
      in case research_agent_run E (''Research this topic: '' @ topic') w1 of
           (Inl e, w2) \<Rightarrow> (Inl e, w2)
         | (Inr research_data, w2) \<Rightarrow>
             (let w3 = store_agent_result ''research_agent'' (Research research_data) w2;
                  (task_summary, w4) =
                     TaskSummary_init E ''research'' [''research_agent''] ''completed''
                       (''Researched: '' @ topic research_data @ '' (Confidence: '' @
                        confidence_level research_data @ '')'') w3;
                  w5 = add_task_result task_summary w4
              in (Inr research_data, w5)))"

definition delegate_code_analysis ::
  "env \<Rightarrow> string \<Rightarrow> string \<Rightarrow> world \<Rightarrow> (error + CodeAnalysis) \<times> world" where
  "delegate_code_analysis E code language' w0 =
     (let w1 = add_conversation E ''system'' (''Delegating code analysis for '' @ language')
                 ''coordinator'' w0
      in case code_agent_run E
                (''Analyze this '' @ language' @ '' code:'' @ newline @ newline @ ''```'' @
                 newline @ code @ newline @ ''```'') w1 of
           (Inl e, w2) \<Rightarrow> (Inl e, w2)
         | (Inr code_data, w2) \<Rightarrow>
             (let w3 = store_agent_result ''code_agent'' (Code code_data) w2;
                  (task_summary, w4) =
                     TaskSummary_init E ''code_analysis'' [''code_agent''] ''completed''
                       (''Analyzed '' @ language code_data @ '' code (Complexity: '' @
                        str_int (complexity_score code_data) @ ''/10)'') w3;
                  w5 = add_task_result task_summary w4
              in (Inr code_data, w5)))"

definition delegate_content_creation ::
  "env \<Rightarrow> string \<Rightarrow> string \<Rightarrow> string \<Rightarrow> string \<Rightarrow> world \<Rightarrow>
   (error + CreativeContent) \<times> world" where
  "delegate_content_creation E content_request content_type' audience tone' w0 =
     (let w1 = add_conversation E ''system'' (''Delegating content creation: '' @ content_type')
                 ''coordinator'' w0;
          prompt = ''Create '' @ content_type' @ '' content about: '' @ content_request @
                   ''. Target audience: '' @ audience @ ''. Tone: '' @ tone'
      in case creative_agent_run E prompt w1 of
           (Inl e, w2) \<Rightarrow> (Inl e, w2)
         | (Inr creative_data, w2) \<Rightarrow>
             (let w3 = store_agent_result ''creative_agent'' (Creative creative_data) w2;
                  (task_summary, w4) =
                     TaskSummary_init E ''content_creation'' [''creative_agent''] ''completed''
                       (''Created '' @ content_type creative_data @ '': '' @ title creative_data @
                        '' ('' @ str_int (word_count creative_data) @ '' words)'') w3;
                  w5 = add_task_result task_summary w4
              in (Inr creative_data, w5)))"

definition render_task :: "string \<Rightarrow> int \<times> TaskSummary \<Rightarrow> string" where
  "render_task summary' = (\<lambda>(i, task).
     summary' @ str_int i @ ''. '' @ upper (task_type task) @ '': '' @ result_summary task @
       newline @
     ''   Agents: '' @ join '', '' (agents_used task) @ '' | Status: '' @ status task @
       newline @ newline)"

definition get_task_history :: "MultiAgentContext \<Rightarrow> string" where
  "get_task_history c =
     (if task_history c = [] then ''No tasks completed yet in this session.''
      else foldl render_task
             (bar_chart @ '' Session '' @ session_id c @ '' - '' @
              str_int (int (length (task_history c))) @ '' tasks completed:'' @ newline @ newline)
             (enumerate_from 1 (slice_from (- 5) (task_history c))))"

definition complex_research_analysis ::
  "env \<Rightarrow> string \<Rightarrow> world \<Rightarrow> (error + string) \<times> world" where
  "complex_research_analysis E topic' w0 =
     (let w1 = add_conversation E ''system'' (''Starting complex analysis: '' @ topic')
                 ''coordinator'' w0
      in case delegate_research E topic' w1 of
           (Inl e, w2) \<Rightarrow> (Inl e, w2)
         | (Inr research_result, w2) \<Rightarrow>
             (let report_request =
                    ''Create a comprehensive report based on this research: '' @
                    summary research_result @ ''. Include the key points: '' @
                    join '', '' (key_points research_result)
              in case delegate_content_creation E report_request ''report'' ''professional''
                        ''analytical'' w2 of
                   (Inl e, w3) \<Rightarrow> (Inl e, w3)
                 | (Inr content_result, w3) \<Rightarrow>
                     (let (task_summary, w4) =
                             TaskSummary_init E ''complex_analysis''
                               [''research_agent'', ''creative_agent''] ''completed''
                               (''Complex analysis of '' @ quote @ topic' @ quote @
                                '' with research and report generation'') w3;
                          w5 = add_task_result task_summary w4
                      in (Inr (magnifier @ '' RESEARCH COMPLETED'' @ newline @
                               format_research_result research_result @ newline @ newline @
                               page @ '' ANALYSIS REPORT'' @ newline @
                               format_creative_result content_result), w5))))"

subsection \<open>One run of the coordinator\<close>

definition default_arg :: "string \<Rightarrow> string option \<Rightarrow> string" where
  "default_arg d v = (case v of None \<Rightarrow> d | Some x \<Rightarrow> x)"

text \<open>
  The tools again, cut at their awaits. What a tool does up to the await of its specialist
  (the \<open>begin\<close> of the tool) happens when the call is started; the answer of the specialist
  is then fixed, and the rest of the tool (its \<open>end\<close>) happens when the coroutine is resumed
  with it. A failed run raises at the await, so the rest of the tool is not run.
\<close>

definition delegate_research_begin ::
  "env \<Rightarrow> string \<Rightarrow> world \<Rightarrow> (error + ResearchResult) \<times> world" where
  "delegate_research_begin E topic' w0 =
     research_agent_run E (''Research this topic: '' @ topic')
       (add_conversation E ''system'' (''Delegating research: '' @ topic') ''coordinator'' w0)"

definition delegate_research_end ::
  "env \<Rightarrow> error + ResearchResult \<Rightarrow> world \<Rightarrow> (error + ResearchResult) \<times> world" where
  "delegate_research_end E answer w2 =
     (case answer of
        Inl e \<Rightarrow> (Inl e, w2)
      | Inr research_data \<Rightarrow>
          (let w3 = store_agent_result ''research_agent'' (Research research_data) w2;
               (task_summary, w4) =
                  TaskSummary_init E ''research'' [''research_agent''] ''completed''
                    (''Researched: '' @ topic research_data @ '' (Confidence: '' @
                     confidence_level research_data @ '')'') w3;
               w5 = add_task_result task_summary w4
           in (Inr research_data, w5)))"

definition delegate_code_analysis_begin ::
  "env \<Rightarrow> string \<Rightarrow> string \<Rightarrow> world \<Rightarrow> (error + CodeAnalysis) \<times> world" where
  "delegate_code_analysis_begin E code language' w0 =
     code_agent_run E
       (''Analyze this '' @ language' @ '' code:'' @ newline @ newline @ ''```'' @
        newline @ code @ newline @ ''```'')
       (add_conversation E ''system'' (''Delegating code analysis for '' @ language')
          ''coordinator'' w0)"

definition delegate_code_analysis_end ::
  "env \<Rightarrow> error + CodeAnalysis \<Rightarrow> world \<Rightarrow> (error + CodeAnalysis) \<times> world" where
  "delegate_code_analysis_end E answer w2 =
     (case answer of
        Inl e \<Rightarrow> (Inl e, w2)
      | Inr code_data \<Rightarrow>
          (let w3 = store_agent_result ''code_agent'' (Code code_data) w2;
               (task_summary, w4) =
                  TaskSummary_init E ''code_analysis'' [''code_agent''] ''completed''
                    (''Analyzed '' @ language code_data @ '' code (Complexity: '' @
                     str_int (complexity_score code_data) @ ''/10)'') w3;
               w5 = add_task_result task_summary w4
           in (Inr code_data, w5)))"

definition delegate_content_creation_begin ::
  "env \<Rightarrow> string \<Rightarrow> string \<Rightarrow> string \<Rightarrow> string \<Rightarrow> world \<Rightarrow>
   (error + CreativeContent) \<times> world" where
  "delegate_content_creation_begin E content_request content_type' audience tone' w0 =
     creative_agent_run E
       (''Create '' @ content_type' @ '' content about: '' @ content_request @
        ''. Target audience: '' @ audience @ ''. Tone: '' @ tone')
       (add_conversation E ''system'' (''Delegating content creation: '' @ content_type')
          ''coordinator'' w0)"

definition delegate_content_creation_end ::
  "env \<Rightarrow> error + CreativeContent \<Rightarrow> world \<Rightarrow> (error + CreativeContent) \<times> world" where
  "delegate_content_creation_end E answer w2 =
     (case answer of
        Inl e \<Rightarrow> (Inl e, w2)
      | Inr creative_data \<Rightarrow>
          (let w3 = store_agent_result ''creative_agent'' (Creative creative_data) w2;
               (task_summary, w4) =
                  TaskSummary_init E ''content_creation'' [''creative_agent''] ''completed''
                    (''Created '' @ content_type creative_data @ '': '' @ title creative_data @
                     '' ('' @ str_int (word_count creative_data) @ '' words)'') w3;
               w5 = add_task_result task_summary w4
           in (Inr creative_data, w5)))"

text \<open>
  The complex analysis awaits twice: up to the await of the research, from there to the await of
  the report, and from there to its end.
\<close>

definition complex_begin ::
  "env \<Rightarrow> string \<Rightarrow> world \<Rightarrow> (error + ResearchResult) \<times> world" where
  "complex_begin E topic' w0 =
     delegate_research_begin E topic'
       (add_conversation E ''system'' (''Starting complex analysis: '' @ topic')
          ''coordinator'' w0)"

definition complex_middle ::
  "env \<Rightarrow> error + ResearchResult \<Rightarrow> world \<Rightarrow>
   (error + ResearchResult \<times> (error + CreativeContent)) \<times> world" where
  "complex_middle E answer w1 =
     (case delegate_research_end E answer w1 of
        (Inl e, w2) \<Rightarrow> (Inl e, w2)
      | (Inr research_result, w2) \<Rightarrow>
          (let report_request =
                 ''Create a comprehensive report based on this research: '' @
                 summary research_result @ ''. Include the key points: '' @
                 join '', '' (key_points research_result);
               (answer', w3) =
                 delegate_content_creation_begin E report_request ''report'' ''professional''
                   ''analytical'' w2
           in (Inr (research_result, answer'), w3)))"

definition complex_end ::
  "env \<Rightarrow> string \<Rightarrow> ResearchResult \<Rightarrow> error + CreativeContent \<Rightarrow> world \<Rightarrow>
   (error + string) \<times> world" where
  "complex_end E topic' research_result answer w2 =
     (case delegate_content_creation_end E answer w2 of
        (Inl e, w3) \<Rightarrow> (Inl e, w3)
      | (Inr content_result, w3) \<Rightarrow>
          (let (task_summary, w4) =
                  TaskSummary_init E ''complex_analysis''
                    [''research_agent'', ''creative_agent''] ''completed''
                    (''Complex analysis of '' @ quote @ topic' @ quote @
                     '' with research and report generation'') w3;
               w5 = add_task_result task_summary w4
           in (Inr (magnifier @ '' RESEARCH COMPLETED'' @ newline @
                    format_research_result research_result @ newline @ newline @
                    page @ '' ANALYSIS REPORT'' @ newline @
                    format_creative_result content_result), w5)))"

text \<open>
  A coroutine that waits: the tool it belongs to, the place where it waits, what it holds, and
  the answer it will be resumed with.
\<close>

datatype waiting =
    Await_research "error + ResearchResult"
  | Await_code "error + CodeAnalysis"
  | Await_creative "error + CreativeContent"
  | Await_complex_research string "error + ResearchResult"
  | Await_complex_creative string ResearchResult "error + CreativeContent"

datatype progress = Done tool_output | Wait waiting

fun start_tool :: "env \<Rightarrow> tool_call \<Rightarrow> world \<Rightarrow> progress \<times> world" where
  "start_tool E (Delegate_research topic') w =
     (let (answer, w') = delegate_research_begin E topic' w
      in (Wait (Await_research answer), w'))"
| "start_tool E (Delegate_code_analysis code language') w =
     (let (answer, w') =
            delegate_code_analysis_begin E code (default_arg ''auto-detect'' language') w
      in (Wait (Await_code answer), w'))"
| "start_tool E (Delegate_content_creation content_request content_type' audience tone') w =
     (let (answer, w') =
            delegate_content_creation_begin E content_request
              (default_arg ''article'' content_type') (default_arg ''general'' audience)
              (default_arg ''professional'' tone') w
      in (Wait (Await_creative answer), w'))"
| "start_tool E Get_task_history w = (Done (Out_text (get_task_history (ctx w))), w)"
| "start_tool E (Complex_research_analysis topic') w =
     (let (answer, w') = complex_begin E topic' w
      in (Wait (Await_complex_research topic' answer), w'))"

fun resume :: "env \<Rightarrow> waiting \<Rightarrow> world \<Rightarrow> (error + progress) \<times> world" where
  "resume E (Await_research answer) w =
     (case delegate_research_end E answer w of
        (Inl e, w') \<Rightarrow> (Inl e, w')
      | (Inr r, w') \<Rightarrow> (Inr (Done (Out_research r)), w'))"
| "resume E (Await_code answer) w =
     (case delegate_code_analysis_end E answer w of
        (Inl e, w') \<Rightarrow> (Inl e, w')
      | (Inr r, w') \<Rightarrow> (Inr (Done (Out_code r)), w'))"
| "resume E (Await_creative answer) w =
     (case delegate_content_creation_end E answer w of
        (Inl e, w') \<Rightarrow> (Inl e, w')
      | (Inr r, w') \<Rightarrow> (Inr (Done (Out_creative r)), w'))"
| "resume E (Await_complex_research topic' answer) w =
     (case complex_middle E answer w of
        (Inl e, w') \<Rightarrow> (Inl e, w')
      | (Inr (research_result, answer'), w') \<Rightarrow>
          (Inr (Wait (Await_complex_creative topic' research_result answer')), w'))"
| "resume E (Await_complex_creative topic' research_result answer) w =
     (case complex_end E topic' research_result answer w of
        (Inl e, w') \<Rightarrow> (Inl e, w')
      | (Inr s, w') \<Rightarrow> (Inr (Done (Out_text s)), w'))"

text \<open>
  One event of the schedule, on the coroutines that wait and the state. A call that is started
  runs up to its first await; the history report has none and is done at once. A resumption of a
  coroutine that does not exist does nothing.
\<close>

fun step :: "env \<Rightarrow> event \<Rightarrow> waiting list \<times> world \<Rightarrow> (error + waiting list) \<times> world" where
  "step E (Start c) (ts, w) =
     (case start_tool E c w of
        (Done out, w') \<Rightarrow> (Inr ts, w')
      | (Wait t, w') \<Rightarrow> (Inr (ts @ [t]), w'))"
| "step E (Resume i) (ts, w) =
     (if i < length ts
      then (case resume E (ts ! i) w of
              (Inl e, w') \<Rightarrow> (Inl e, w')
            | (Inr (Done out), w') \<Rightarrow> (Inr (take i ts @ drop (Suc i) ts), w')
            | (Inr (Wait t), w') \<Rightarrow> (Inr (ts[i := t]), w'))
      else (Inr ts, w))"

text \<open>
  The events in order. An exception in a coroutine ends the run; the coroutines that still wait
  are not resumed.
\<close>

fun run_events ::
  "env \<Rightarrow> event list \<Rightarrow> waiting list \<times> world \<Rightarrow> (error + waiting list) \<times> world" where
  "run_events E [] (ts, w) = (Inr ts, w)"
| "run_events E (ev # evs) (ts, w) =
     (case step E ev (ts, w) of
        (Inl e, w') \<Rightarrow> (Inl e, w')
      | (Inr ts', w') \<Rightarrow> run_events E evs (ts', w'))"

text \<open>
  The library waits for every call of an answer before it asks the model again: the coroutines
  that wait when the schedule ends are resumed in order, each until it is done.
\<close>

fun awaits_left :: "waiting \<Rightarrow> nat" where
  "awaits_left (Await_complex_research topic' answer) = 2"
| "awaits_left t = 1"

function finish_task :: "env \<Rightarrow> waiting \<Rightarrow> world \<Rightarrow> (error + tool_output) \<times> world" where
  "finish_task E t w =
     (case resume E t w of
        (Inl e, w') \<Rightarrow> (Inl e, w')
      | (Inr (Done out), w') \<Rightarrow> (Inr out, w')
      | (Inr (Wait t'), w') \<Rightarrow> finish_task E t' w')"
  by pat_completeness auto
termination
proof (relation "measure (\<lambda>(E, t, w). awaits_left t)")
  show "wf (measure (\<lambda>(E, t, w). awaits_left t))" by simp
next
  fix E :: env and t w x2 y b x22
  assume "(x2, y) = resume E t w" and "x2 = Inr b" and "b = Wait x22"
  then have "resume E t w = (Inr (Wait x22), y)" by simp
  then have "awaits_left x22 < awaits_left t"
    by (cases t) (auto split: prod.splits sum.splits)
  then show "((E, x22, y), E, t, w) \<in> measure (\<lambda>(E, t, w). awaits_left t)" by simp
qed

fun finish_all :: "env \<Rightarrow> waiting list \<Rightarrow> world \<Rightarrow> (error + unit) \<times> world" where
  "finish_all E [] w = (Inr (), w)"
| "finish_all E (t # ts) w =
     (case finish_task E t w of
        (Inl e, w') \<Rightarrow> (Inl e, w')
      | (Inr out, w') \<Rightarrow> finish_all E ts w')"

text \<open>
  \<^verbatim>\<open>coordinator_agent.run(user_input, deps=self.context)\<close>: the run is recorded, the schedule
  is followed, and the final text or the failure of the model is the result, unless a tool has
  raised before.
\<close>

definition coordinator_agent_run ::
  "env \<Rightarrow> string \<Rightarrow> world \<Rightarrow> (error + string) \<times> world" where
  "coordinator_agent_run E user_input w =
     (let (schedule, final) = coordinator_model E (length (runs w)) user_input
      in case run_events E schedule ([], record_run coordinator_agent user_input w) of
           (Inl e, w') \<Rightarrow> (Inl e, w')
         | (Inr ts, w') \<Rightarrow>
             (case finish_all E ts w' of
                (Inl e, w'') \<Rightarrow> (Inl e, w'')
              | (Inr u, w'') \<Rightarrow> (final, w'')))"

section \<open>The orchestrator of \<^verbatim>\<open>multi_agent.py\<close>\<close>

definition error_prefix :: string where
  "error_prefix = cross_mark @ '' Error processing request: ''"

text \<open>
  \<^verbatim>\<open>MultiAgentSystem.process_request\<close>, on the context of the system. First the body of its
  \<^verbatim>\<open>try\<close>, which raises what the run of the coordinator raises. The coordinator has no
  output type, so its result carries the text itself and \<^verbatim>\<open>str(result.output)\<close> is that
  text.
\<close>

definition process_request_try ::
  "env \<Rightarrow> string \<Rightarrow> world \<Rightarrow> (error + string) \<times> world" where
  "process_request_try E user_input w0 =
     (let w1 = add_conversation E ''user'' user_input ''user'' w0
      in case coordinator_agent_run E user_input w1 of
           (Inl e, w2) \<Rightarrow> (Inl e, w2)
         | (Inr response, w2) \<Rightarrow>
             (Inr response, add_conversation E ''assistant'' response ''coordinator'' w2))"

text \<open>
  The method itself: the body, and the handler of \<^verbatim>\<open>except Exception as e\<close>. The result is
  what the method returns, or the exception that leaves it.
\<close>

definition process_request :: "env \<Rightarrow> string \<Rightarrow> world \<Rightarrow> (error + string) \<times> world" where
  "process_request E user_input w0 =
     (case process_request_try E user_input w0 of
        (Inr response, w) \<Rightarrow> (Inr response, w)
      | (Inl e, w) \<Rightarrow>
          (let error_msg = error_prefix @ str_error E e
           in (Inr error_msg, add_conversation E ''system'' error_msg ''error'' w)))"

subsection \<open>The session driver\<close>

definition print :: "string \<Rightarrow> world \<Rightarrow> world" where
  "print s w = w\<lparr>stdout := stdout w @ s @ newline\<rparr>"

text \<open>
  \<^verbatim>\<open>input(prompt)\<close> writes the prompt and reads one line, or raises at the end of the
  input.
\<close>

definition input :: "string \<Rightarrow> world \<Rightarrow> (error + string) \<times> world" where
  "input prompt w =
     (case stdin w of
        [] \<Rightarrow> (Inl EOFError, w\<lparr>stdout := stdout w @ prompt\<rparr>)
      | l # ls \<Rightarrow> (Inr l, w\<lparr>stdout := stdout w @ prompt, stdin := ls\<rparr>))"

text \<open>\<^verbatim>\<open>MultiAgentSystem()\<close>: a system with a fresh context.\<close>

definition MultiAgentSystem_init :: "env \<Rightarrow> world \<Rightarrow> world" where
  "MultiAgentSystem_init E w = w\<lparr>ctx := MultiAgentContext_init E (clock w), clock := Suc (clock w)\<rparr>"

definition banner :: "string list" where
  "banner =
     [robot @ '' MULTI-AGENT SYSTEM STARTED!'',
      replicate 50 (CHR ''=''),
      ''Available agents:'',
      ''  '' @ magnifier @ '' Research Agent - Topic research and analysis'',
      ''  '' @ laptop @ '' Code Agent - Code analysis and review'',
      ''  '' @ writing_hand @ ''  Creative Agent - Content creation and writing'',
      ''  '' @ masks @ '' Coordinator - Orchestrates all agents'',
      [],
      ''Commands:'',
      ''  '' @ bullet @ '' Type any request and agents will coordinate automatically'',
      ''  '' @ bullet @ '' '' @ quote @ ''history'' @ quote @ '' - View task history'',
      ''  '' @ bullet @ '' '' @ quote @ ''quit'' @ quote @ '' or '' @ quote @ ''exit'' @ quote @
        '' - Stop the system'',
      replicate 50 (CHR ''='')]"

text \<open>
  \<^verbatim>\<open>RunContext(self.context)\<close>, as the \<^verbatim>\<open>history\<close> command builds it: the constructor of
  the library needs more than the dependencies, and the call raises \<open>TypeError\<close>.
\<close>

definition RunContext_init :: "env \<Rightarrow> MultiAgentContext \<Rightarrow> error + MultiAgentContext" where
  "RunContext_init E deps = Inl (TypeError (run_context_text E))"

text \<open>
  The loop of \<^verbatim>\<open>run_interactive_session\<close>. The flag \<^verbatim>\<open>is_running\<close> is set before the
  loop and nothing clears it, so the loop ends by \<^verbatim>\<open>break\<close> only. An exception in a turn is
  reported and the loop goes on; at the end of the input every turn raises and reports
  \<open>EOFError\<close>, and the loop does not end. The fuel bounds the number of turns.
\<close>

definition report_error :: "env \<Rightarrow> error \<Rightarrow> world \<Rightarrow> world" where
  "report_error E e w = print (newline @ cross_mark @ '' Error: '' @ str_error E e) w"

fun session_loop :: "env \<Rightarrow> nat \<Rightarrow> world \<Rightarrow> world option" where
  "session_loop E 0 w = None"
| "session_loop E (Suc fuel) w =
     (case input (newline @ speech @ '' You: '') w of
        (Inl e, w1) \<Rightarrow> session_loop E fuel (report_error E e w1)
      | (Inr line, w1) \<Rightarrow>
          (let user_input = strip line
           in if lower user_input \<in> set [''quit'', ''exit'', ''bye'', ''q'']
              then Some (print (wave @ '' Multi-Agent System shutting down. Goodbye!'') w1)
              else if lower user_input = ''history''
              then (case RunContext_init E (ctx w1) of
                      Inl e \<Rightarrow> session_loop E fuel (report_error E e w1)
                    | Inr deps \<Rightarrow>
                        session_loop E fuel (print (newline @ get_task_history deps) w1))
              else if user_input = []
              then session_loop E fuel w1
              else (let w2 = print (newline @ robot @ '' Coordinating agents...'') w1
                    in case process_request E user_input w2 of
                         (Inl e, w3) \<Rightarrow> session_loop E fuel (report_error E e w3)
                       | (Inr response, w3) \<Rightarrow>
                           session_loop E fuel
                             (print (newline @ clipboard @ '' Response:'' @ newline @ response)
                                w3))))"

definition run_interactive_session :: "env \<Rightarrow> nat \<Rightarrow> world \<Rightarrow> world option" where
  "run_interactive_session E fuel w = session_loop E fuel (foldl (\<lambda>w' l. print l w') w banner)"

definition examples :: "string list" where
  "examples =
     [''Research quantum computing trends'',
      ''Analyze this Python code: def factorial(n): return 1 if n <= 1 else n * factorial(n-1)'',
      ''Write a professional email about project updates'',
      ''Do a complex analysis on artificial intelligence impact on healthcare'']"

text \<open>
  The loop of \<^verbatim>\<open>run_multi_agent_examples\<close>; an exception in a request ends it.
\<close>

fun run_examples :: "env \<Rightarrow> (int \<times> string) list \<Rightarrow> world \<Rightarrow> (error + unit) \<times> world" where
  "run_examples E [] w = (Inr (), w)"
| "run_examples E ((i, example) # rest) w =
     (let w1 = print (newline @ str_int i @ ''. Example: '' @ example) w;
          w2 = print (replicate 40 (CHR ''-'')) w1
      in case process_request E example w2 of
           (Inl e, w3) \<Rightarrow> (Inl e, w3)
         | (Inr response, w3) \<Rightarrow>
             (let w4 = print (''Response: '' @ take_chars 200 response @ ''...'') w3
              in run_examples E rest (print [] w4)))"

text \<open>
  \<^verbatim>\<open>run_multi_agent_examples\<close> works on a system of its own; the context of the caller's
  system is put back at the end.
\<close>

definition run_multi_agent_examples :: "env \<Rightarrow> world \<Rightarrow> (error + unit) \<times> world" where
  "run_multi_agent_examples E w =
     (let w1 = MultiAgentSystem_init E w;
          w2 = print (test_tube @ '' MULTI-AGENT EXAMPLES'') w1;
          w3 = print (replicate 30 (CHR ''='')) w2
      in case run_examples E (enumerate_from 1 examples) w3 of
           (Inl e, w4) \<Rightarrow> (Inl e, w4\<lparr>ctx := ctx w\<rparr>)
         | (Inr u, w4) \<Rightarrow>
             (Inr (), (print (check_mark @ '' Examples completed!'') w4)\<lparr>ctx := ctx w\<rparr>))"

subsection \<open>Start of the process\<close>

text \<open>\<^verbatim>\<open>not api_key\<close> holds of a variable that is not set and of one set to the empty text.\<close>

definition truthy :: "string option \<Rightarrow> bool" where
  "truthy v = (case v of None \<Rightarrow> False | Some s \<Rightarrow> s \<noteq> [])"

datatype GeminiModel = GeminiModel string

definition get_gemini_model :: "string option \<Rightarrow> error + GeminiModel" where
  "get_gemini_model api_key =
     (if \<not> truthy api_key then Inl (ValueError ''Please set GEMINI_API_KEY in your .env file'')
      else Inr (GeminiModel ''gemini-2.0-flash-exp''))"

text \<open>
  Importing \<^verbatim>\<open>agents.py\<close> builds the four agents, each with a model of its own from
  \<^verbatim>\<open>get_gemini_model()\<close>; building an agent runs no language model.
\<close>

definition import_agents :: "string option \<Rightarrow> error + GeminiModel list" where
  "import_agents api_key =
     (case get_gemini_model api_key of Inl e \<Rightarrow> Inl e | Inr research \<Rightarrow>
      case get_gemini_model api_key of Inl e \<Rightarrow> Inl e | Inr code \<Rightarrow>
      case get_gemini_model api_key of Inl e \<Rightarrow> Inl e | Inr creative \<Rightarrow>
      case get_gemini_model api_key of Inl e \<Rightarrow> Inl e | Inr coordinator \<Rightarrow>
      Inr [research, code, creative, coordinator])"

text \<open>
  How the process ends: with an exception that nothing caught, before anything was written or
  run; by \<^verbatim>\<open>main\<close> returning before a system exists, with what it has written; or with the
  state that \<^verbatim>\<open>main\<close> leaves.
\<close>

datatype outcome = Uncaught error | Stopped string | Ended world

text \<open>The handler of \<^verbatim>\<open>except Exception as e\<close> in \<^verbatim>\<open>main\<close>.\<close>

definition fatal :: "env \<Rightarrow> error \<Rightarrow> world \<Rightarrow> world" where
  "fatal E e w =
     print ''Please check your API key and internet connection.''
       (print (cross_mark @ '' Fatal error: '' @ str_error E e) w)"

definition main :: "env \<Rightarrow> string option \<Rightarrow> string list \<Rightarrow> nat \<Rightarrow> outcome option" where
  "main E api_key lines fuel =
     (let out0 = rocket @ '' Initializing Multi-Agent System...'' @ newline
      in if \<not> truthy api_key
         then Some (Stopped (out0 @ cross_mark @ '' GEMINI_API_KEY not found!'' @ newline @
                 ''Please create a .env file with: GEMINI_API_KEY=your_api_key_here'' @ newline))
         else
           (let out1 = out0 @ wrench @ '' Testing agent coordination...'' @ newline;
                system = \<lparr>ctx = MultiAgentContext_init E 0, clock = 1, runs = [],
                          stdout = out1, stdin = lines\<rparr>
            in case process_request E
                      ''Hello, can you help me research Python programming?'' system of
                 (Inl e, w1) \<Rightarrow> Some (Ended (fatal E e w1))
               | (Inr test_response, w1) \<Rightarrow>
                   if test_response \<noteq> [] \<and> \<not> startswith cross_mark test_response
                   then (let w2 = print (check_mark @ '' Multi-agent system ready!'') w1
                         in case input (newline @ test_tube @ '' Run examples first? (y/n): '')
                                   w2 of
                              (Inl e, w3) \<Rightarrow> Some (Ended (fatal E e w3))
                            | (Inr answer, w3) \<Rightarrow>
                                (if startswith ''y'' (lower answer)
                                 then (case run_multi_agent_examples E w3 of
                                         (Inl e, w4) \<Rightarrow> Some (Ended (fatal E e w4))
                                       | (Inr u, w4) \<Rightarrow>
                                           map_option Ended (run_interactive_session E fuel w4))
                                 else map_option Ended (run_interactive_session E fuel w3)))
                   else Some (Ended
                          (print (cross_mark @ '' System test failed. Please check your setup.'')
                             w1))))"

text \<open>
  Running \<^verbatim>\<open>multi_agent.py\<close>: the imports first, then \<^verbatim>\<open>main\<close>.
\<close>

definition program :: "env \<Rightarrow> string option \<Rightarrow> string list \<Rightarrow> nat \<Rightarrow> outcome option" where
  "program E api_key lines fuel =
     (case import_agents api_key of
        Inl e \<Rightarrow> Some (Uncaught e)
      | Inr agents \<Rightarrow> main E api_key lines fuel)"

text \<open>What an outcome shows: the runs of a language model made, and the output written.\<close>

fun runs_of :: "outcome \<Rightarrow> (agent \<times> string) list" where
  "runs_of (Uncaught e) = []"
| "runs_of (Stopped out) = []"
| "runs_of (Ended w) = runs w"

fun stdout_of :: "outcome \<Rightarrow> string" where
  "stdout_of (Uncaught e) = []"
| "stdout_of (Stopped out) = out"
| "stdout_of (Ended w) = stdout w"

section \<open>Notions used in the statements\<close>

text \<open>
  A task summary of one specialist that completed; a task summary that names one agent; a run of
  a specialist; a conversation entry written by the tools.
\<close>

definition completed_by :: "string \<Rightarrow> string \<Rightarrow> TaskSummary \<Rightarrow> bool" where
  "completed_by ty a t = (task_type t = ty \<and> agents_used t = [a] \<and> status t = ''completed'')"

definition single_specialist :: "TaskSummary \<Rightarrow> bool" where
  "single_specialist t = (length (agents_used t) = 1)"

definition is_specialist_run :: "agent \<times> string \<Rightarrow> bool" where
  "is_specialist_run r = (fst r \<noteq> coordinator_agent)"

definition system_entry :: "ConversationEntry \<Rightarrow> bool" where
  "system_entry e = (entry_role e = ''system'')"

text \<open>
  From \<open>w\<close> to \<open>w'\<close> the two histories and the list of runs have grown by \<open>es\<close>, \<open>ts\<close> and
  \<open>rs\<close>, and nothing that was in them has changed.
\<close>

definition grows ::
  "world \<Rightarrow> world \<Rightarrow> ConversationEntry list \<Rightarrow> TaskSummary list \<Rightarrow> (agent \<times> string) list \<Rightarrow> bool"
  where
  "grows w w' es ts rs =
     (conversation_history (ctx w') = conversation_history (ctx w) @ es \<and>
      task_history (ctx w') = task_history (ctx w) @ ts \<and>
      runs w' = runs w @ rs)"

text \<open>
  From \<open>w\<close> to \<open>w'\<close> the conversation has grown by \<open>system\<close> entries only, the task history
  by summaries of which \<open>k\<close> name one agent, and the runs by \<open>n\<close> runs of specialists.
\<close>

definition effect :: "world \<Rightarrow> world \<Rightarrow> nat \<Rightarrow> nat \<Rightarrow> bool" where
  "effect w w' k n =
     (\<exists>es ts rs. grows w w' es ts rs \<and> list_all system_entry es \<and>
        list_all is_specialist_run rs \<and>
        length (filter single_specialist ts) = k \<and> length rs = n)"

text \<open>
  The number of words of a text, as the specification speaks of it: the maximal runs of
  characters that are not white space. The flag says whether the scan is inside a word.
\<close>

fun count_words :: "bool \<Rightarrow> string \<Rightarrow> nat" where
  "count_words in_word [] = 0"
| "count_words in_word (c # cs) =
     (if is_space c then count_words False cs
      else (if in_word then 0 else 1) + count_words True cs)"

definition spec_word_count :: "string \<Rightarrow> int" where
  "spec_word_count s = int (count_words False s)"

section \<open>Sample inputs\<close>

definition sample_research :: raw_ResearchResult where
  "sample_research =
     \<lparr>raw_topic = Some ''AI'', raw_summary = Some ''growing'',
      raw_key_points = Some [''a'', ''b'', ''c''], raw_confidence_level = Some ''High'',
      raw_sources_needed = None\<rparr>"

definition two_points :: raw_ResearchResult where
  "two_points = sample_research\<lparr>raw_key_points := Some [''a'', ''b'']\<rparr>"

definition six_points :: raw_ResearchResult where
  "six_points = sample_research\<lparr>raw_key_points := Some [''a'', ''b'', ''c'', ''d'', ''e'', ''f'']\<rparr>"

definition sample_code :: raw_CodeAnalysis where
  "sample_code =
     \<lparr>raw_language = Some ''Python'', raw_complexity_score = Some 3,
      raw_issues_found = None, raw_suggestions = None, raw_security_concerns = None\<rparr>"

definition sample_creative :: raw_CreativeContent where
  "sample_creative =
     \<lparr>raw_content_type = Some ''report'', raw_title = Some ''AI'',
      raw_content = Some ''hello world'', raw_target_audience = Some ''professional'',
      raw_tone = Some ''analytical'', raw_word_count = Some 7\<rparr>"

definition sample_accepted :: CreativeContent where
  "sample_accepted =
     \<lparr>content_type = ''report'', title = ''AI'', content = ''hello world'',
      target_audience = ''professional'', tone = ''analytical'', word_count = 7\<rparr>"

text \<open>Every model answers; the coordinator asks for one complex analysis.\<close>

definition sample_env :: env where
  "sample_env =
     \<lparr>isoformat_now = (\<lambda>k. ''2025-01-01T00:00:00''),
      strftime_now = (\<lambda>k. ''20250101_000000''),
      research_model = (\<lambda>k p a. Inr sample_research),
      code_model = (\<lambda>k p a. Inr sample_code),
      creative_model = (\<lambda>k p a. Inr sample_creative),
      coordinator_model = (\<lambda>k p.
        ([Start (Complex_research_analysis p), Resume 0, Resume 0], Inr ''done'')),
      validation_text = (\<lambda>fs. ''validation failed''),
      run_context_text = ''missing arguments''\<rparr>"

text \<open>The coordinator asks for research; the research model cannot be reached.\<close>

definition research_down_env :: env where
  "research_down_env =
     sample_env\<lparr>research_model := (\<lambda>k p a. Inl (BackendUnavailable ''unreachable'')),
                coordinator_model := (\<lambda>k p.
                  ([Start (Delegate_research p), Resume 0], Inr ''done''))\<rparr>"

text \<open>
  The coordinator asks for one complex analysis; the creative model cannot be reached, so the
  research returns and the report fails.
\<close>

definition creative_down_env :: env where
  "creative_down_env =
     sample_env\<lparr>creative_model := (\<lambda>k p a. Inl (BackendUnavailable ''unreachable''))\<rparr>"

text \<open>
  The coordinator asks for research and for content in one answer; both calls are started, and
  the creative model, which cannot be reached, is the first to answer.
\<close>

definition together_env :: env where
  "together_env =
     sample_env\<lparr>creative_model := (\<lambda>k p a. Inl (BackendUnavailable ''unreachable'')),
                coordinator_model := (\<lambda>k p.
                  ([Start (Delegate_research p),
                    Start (Delegate_content_creation p None None None),
                    Resume 1, Resume 0], Inr ''done''))\<rparr>"

definition sample_world :: world where
  "sample_world =
     \<lparr>ctx = MultiAgentContext_init sample_env 0, clock = 1, runs = [], stdout = [],
      stdin = []\<rparr>"

definition sample_task :: "string \<Rightarrow> string list \<Rightarrow> string \<Rightarrow> TaskSummary" where
  "sample_task ty agents s =
     \<lparr>task_type = ty, agents_used = agents, status = ''completed'', result_summary = s,
      timestamp = ''2025-01-01T00:00:00''\<rparr>"

definition seven_tasks :: MultiAgentContext where
  "seven_tasks =
     (MultiAgentContext_init sample_env 0)
       \<lparr>task_history :=
          [sample_task ''research'' [''research_agent''] ''one'',
           sample_task ''code_analysis'' [''code_agent''] ''two'',
           sample_task ''content_creation'' [''creative_agent''] ''three'',
           sample_task ''complex_analysis'' [''research_agent'', ''creative_agent''] ''four'',
           sample_task ''research'' [''research_agent''] ''five'',
           sample_task ''code_analysis'' [''code_agent''] ''six'',
           sample_task ''content_creation'' [''creative_agent''] ''seven'']\<rparr>"

definition two_entries :: MultiAgentContext where
  "two_entries =
     (MultiAgentContext_init sample_env 0)
       \<lparr>conversation_history :=
          [\<lparr>entry_role = ''user'', entry_content = ''hi'', entry_agent = ''user'',
            entry_timestamp = ''2025-01-01T00:00:00''\<rparr>,
           \<lparr>entry_role = ''assistant'', entry_content = ''hello'', entry_agent = ''coordinator'',
            entry_timestamp = ''2025-01-01T00:00:01''\<rparr>]\<rparr>"

section \<open>The context only grows\<close>

lemma grows_refl: "grows w w [] [] []"
  by (simp add: grows_def)

lemma grows_trans:
  "grows w w1 es ts rs \<Longrightarrow> grows w1 w2 es' ts' rs' \<Longrightarrow> grows w w2 (es @ es') (ts @ ts') (rs @ rs')"
  by (simp add: grows_def)

lemma add_conversation_grows:
  "grows w (add_conversation E r c a w)
     [\<lparr>entry_role = r, entry_content = c, entry_agent = a,
       entry_timestamp = isoformat_now E (clock w)\<rparr>] [] []"
  by (simp add: grows_def add_conversation_def)

lemma add_conversation_clock: "clock (add_conversation E r c a w) = Suc (clock w)"
  by (simp add: add_conversation_def)

lemma add_task_result_grows: "grows w (add_task_result t w) [] [t] []"
  by (simp add: grows_def add_task_result_def)

lemma store_agent_result_grows: "grows w (store_agent_result n r w) [] [] []"
  by (simp add: grows_def store_agent_result_def)

lemma record_run_grows: "grows w (record_run a p w) [] [] [(a, p)]"
  by (simp add: grows_def record_run_def)

lemma TaskSummary_init_grows:
  "TaskSummary_init E ty ags st res w = (t, w') \<Longrightarrow>
   grows w w' [] [] [] \<and> task_type t = ty \<and> agents_used t = ags \<and> status t = st"
  by (auto simp: grows_def TaskSummary_init_def)

lemma research_agent_run_grows:
  "research_agent_run E p w = (res, w') \<Longrightarrow> grows w w' [] [] [(research_agent, p)]"
  by (auto simp: research_agent_run_def record_run_grows)

lemma code_agent_run_grows:
  "code_agent_run E p w = (res, w') \<Longrightarrow> grows w w' [] [] [(code_agent, p)]"
  by (auto simp: code_agent_run_def record_run_grows)

lemma creative_agent_run_grows:
  "creative_agent_run E p w = (res, w') \<Longrightarrow> grows w w' [] [] [(creative_agent, p)]"
  by (auto simp: creative_agent_run_def record_run_grows)

text \<open>
  A delegation writes one system entry and makes one run; it adds the task summary of its
  specialist when the run returns, and none when the run raises.
\<close>

lemmas step_defs = grows_def completed_by_def TaskSummary_init_def record_run_def
  add_conversation_def add_task_result_def store_agent_result_def

lemma delegate_research_grows:
  assumes "delegate_research E tp w = (res, w')"
  shows "\<exists>ts. grows w w'
           [\<lparr>entry_role = ''system'', entry_content = ''Delegating research: '' @ tp,
             entry_agent = ''coordinator'', entry_timestamp = isoformat_now E (clock w)\<rparr>]
           ts [(research_agent, ''Research this topic: '' @ tp)] \<and>
         (case res of
            Inl e \<Rightarrow> ts = []
          | Inr r \<Rightarrow> \<exists>t. ts = [t] \<and> completed_by ''research'' ''research_agent'' t)"
  using assms
  by (auto simp: delegate_research_def research_agent_run_def Let_def step_defs
           split: prod.splits sum.splits)

lemma delegate_code_analysis_grows:
  assumes "delegate_code_analysis E code lang w = (res, w')"
  shows "\<exists>ts p. grows w w'
           [\<lparr>entry_role = ''system'', entry_content = ''Delegating code analysis for '' @ lang,
             entry_agent = ''coordinator'', entry_timestamp = isoformat_now E (clock w)\<rparr>]
           ts [(code_agent, p)] \<and>
         (case res of
            Inl e \<Rightarrow> ts = []
          | Inr r \<Rightarrow> \<exists>t. ts = [t] \<and> completed_by ''code_analysis'' ''code_agent'' t)"
  using assms
  by (auto simp: delegate_code_analysis_def code_agent_run_def Let_def step_defs
           split: prod.splits sum.splits)

lemma delegate_content_creation_grows:
  assumes "delegate_content_creation E req ty au tn w = (res, w')"
  shows "\<exists>ts p. grows w w'
           [\<lparr>entry_role = ''system'', entry_content = ''Delegating content creation: '' @ ty,
             entry_agent = ''coordinator'', entry_timestamp = isoformat_now E (clock w)\<rparr>]
           ts [(creative_agent, p)] \<and>
         (case res of
            Inl e \<Rightarrow> ts = []
          | Inr r \<Rightarrow> \<exists>t. ts = [t] \<and> completed_by ''content_creation'' ''creative_agent'' t)"
  using assms
  by (auto simp: delegate_content_creation_def creative_agent_run_def Let_def step_defs
           split: prod.splits sum.splits)

lemma complex_research_analysis_grows:
  assumes "complex_research_analysis E tp w = (res, w')"
  shows "\<exists>es ts rs. grows w w' es ts rs \<and> list_all system_entry es \<and>
           list_all is_specialist_run rs \<and>
           (case res of
              Inl e \<Rightarrow> Suc (length (filter single_specialist ts)) = length rs
            | Inr text \<Rightarrow>
                \<exists>t1 t2 t3 p1 p2. ts = [t1, t2, t3] \<and>
                  completed_by ''research'' ''research_agent'' t1 \<and>
                  completed_by ''content_creation'' ''creative_agent'' t2 \<and>
                  task_type t3 = ''complex_analysis'' \<and>
                  agents_used t3 = [''research_agent'', ''creative_agent''] \<and>
                  status t3 = ''completed'' \<and>
                  rs = [(research_agent, p1), (creative_agent, p2)])"
proof -
  let ?w1 = "add_conversation E ''system'' (''Starting complex analysis: '' @ tp) ''coordinator'' w"
  let ?e0 = "\<lparr>entry_role = ''system'', entry_content = ''Starting complex analysis: '' @ tp,
             entry_agent = ''coordinator'', entry_timestamp = isoformat_now E (clock w)\<rparr>"
  have g0: "grows w ?w1 [?e0] [] []" by (rule add_conversation_grows)
  obtain r1 w2 where r1: "delegate_research E tp ?w1 = (r1, w2)"
    by (cases "delegate_research E tp ?w1")
  from delegate_research_grows [OF r1] obtain e1 ts1 p1 where
    g1: "grows ?w1 w2 [e1] ts1 [(research_agent, p1)]" and e1: "system_entry e1" and
    c1: "case r1 of Inl e \<Rightarrow> ts1 = []
         | Inr r \<Rightarrow> \<exists>t. ts1 = [t] \<and> completed_by ''research'' ''research_agent'' t"
    by (auto simp: system_entry_def)
  note g01 = grows_trans [OF g0 g1]
  show ?thesis
  proof (cases r1)
    case (Inl e)
    with assms r1 have "res = Inl e" "w' = w2"
      by (simp_all add: complex_research_analysis_def Let_def)
    with g01 c1 Inl e1 show ?thesis
      by (auto simp: system_entry_def is_specialist_run_def intro!: exI)
  next
    case (Inr research_result)
    let ?req = "''Create a comprehensive report based on this research: '' @
                    summary research_result @ ''. Include the key points: '' @
                    join '', '' (key_points research_result)"
    from Inr c1 obtain t1 where t1: "ts1 = [t1]" "completed_by ''research'' ''research_agent'' t1"
      by auto
    obtain r2 w3 where
      r2: "delegate_content_creation E ?req ''report'' ''professional'' ''analytical'' w2 = (r2, w3)"
      by (cases "delegate_content_creation E ?req ''report'' ''professional'' ''analytical'' w2")
    from delegate_content_creation_grows [OF r2] obtain e2 ts2 p2 where
      g2: "grows w2 w3 [e2] ts2 [(creative_agent, p2)]" and e2: "system_entry e2" and
      c2: "case r2 of Inl e \<Rightarrow> ts2 = []
           | Inr r \<Rightarrow> \<exists>t. ts2 = [t] \<and> completed_by ''content_creation'' ''creative_agent'' t"
      by (auto simp: system_entry_def)
    note g02 = grows_trans [OF g01 g2]
    show ?thesis
    proof (cases r2)
      case (Inl e)
      with assms r1 r2 Inr have "res = Inl e" "w' = w3"
        by (simp_all add: complex_research_analysis_def Let_def)
      with g02 c2 Inl e1 e2 t1 show ?thesis
        by (auto simp: system_entry_def is_specialist_run_def single_specialist_def
                 completed_by_def intro!: exI)
    next
      case (Inr content_result)
      from Inr c2 obtain t2 where
        t2: "ts2 = [t2]" "completed_by ''content_creation'' ''creative_agent'' t2"
        by auto
      obtain t3 w4 where t3: "TaskSummary_init E ''complex_analysis''
                               [''research_agent'', ''creative_agent''] ''completed''
                               (''Complex analysis of '' @ quote @ tp @ quote @
                                '' with research and report generation'') w3 = (t3, w4)"
        by (simp add: TaskSummary_init_def)
      from assms r1 r2 \<open>r1 = Inr research_result\<close> Inr t3
      have res: "\<exists>text. res = Inr text" "w' = add_task_result t3 w4"
        by (auto simp: complex_research_analysis_def Let_def)
      from TaskSummary_init_grows [OF t3] have
        g3: "grows w3 w4 [] [] []" and
        p3: "task_type t3 = ''complex_analysis''"
            "agents_used t3 = [''research_agent'', ''creative_agent'']"
            "status t3 = ''completed''"
        by simp_all
      have g4: "grows w4 w' [] [t3] []"
        using res by (simp add: add_task_result_grows)
      from grows_trans [OF grows_trans [OF g02 g3] g4] t1 t2
      have "grows w w' [?e0, e1, e2] [t1, t2, t3] [(research_agent, p1), (creative_agent, p2)]"
        by simp
      with res p3 t1 t2 e1 e2 show ?thesis
        by (auto simp: system_entry_def is_specialist_run_def intro!: exI)
    qed
  qed
qed

section \<open>The tools at their awaits\<close>

text \<open>A tool is its pieces run one after the other.\<close>

lemma delegate_research_pieces:
  "delegate_research E tp w =
     (case delegate_research_begin E tp w of (answer, w') \<Rightarrow> delegate_research_end E answer w')"
  by (simp add: delegate_research_def delegate_research_begin_def delegate_research_end_def
        Let_def split: prod.splits sum.splits)

lemma delegate_code_analysis_pieces:
  "delegate_code_analysis E code lang w =
     (case delegate_code_analysis_begin E code lang w of
        (answer, w') \<Rightarrow> delegate_code_analysis_end E answer w')"
  by (simp add: delegate_code_analysis_def delegate_code_analysis_begin_def
        delegate_code_analysis_end_def Let_def split: prod.splits sum.splits)

lemma delegate_content_creation_pieces:
  "delegate_content_creation E req ty au tn w =
     (case delegate_content_creation_begin E req ty au tn w of
        (answer, w') \<Rightarrow> delegate_content_creation_end E answer w')"
  by (simp add: delegate_content_creation_def delegate_content_creation_begin_def
        delegate_content_creation_end_def Let_def split: prod.splits sum.splits)

lemma complex_research_analysis_pieces:
  "complex_research_analysis E tp w =
     (case complex_begin E tp w of
        (answer, w1) \<Rightarrow>
          (case complex_middle E answer w1 of
             (Inl e, w2) \<Rightarrow> (Inl e, w2)
           | (Inr (research_result, answer'), w2) \<Rightarrow>
               complex_end E tp research_result answer' w2))"
  by (simp add: complex_research_analysis_def complex_begin_def complex_middle_def
        complex_end_def delegate_research_pieces delegate_content_creation_pieces Let_def
        split: prod.splits sum.splits)

text \<open>
  What a piece does to the context. The piece after an await changes nothing when the awaited
  run has failed.
\<close>

lemma delegate_research_begin_grows:
  "delegate_research_begin E tp w = (answer, w') \<Longrightarrow>
   grows w w'
     [\<lparr>entry_role = ''system'', entry_content = ''Delegating research: '' @ tp,
       entry_agent = ''coordinator'', entry_timestamp = isoformat_now E (clock w)\<rparr>]
     [] [(research_agent, ''Research this topic: '' @ tp)]"
  by (auto simp: delegate_research_begin_def research_agent_run_def step_defs)

lemma delegate_code_analysis_begin_grows:
  "delegate_code_analysis_begin E code lang w = (answer, w') \<Longrightarrow>
   \<exists>p. grows w w'
     [\<lparr>entry_role = ''system'', entry_content = ''Delegating code analysis for '' @ lang,
       entry_agent = ''coordinator'', entry_timestamp = isoformat_now E (clock w)\<rparr>]
     [] [(code_agent, p)]"
  by (auto simp: delegate_code_analysis_begin_def code_agent_run_def step_defs)

lemma delegate_content_creation_begin_grows:
  "delegate_content_creation_begin E req ty au tn w = (answer, w') \<Longrightarrow>
   \<exists>p. grows w w'
     [\<lparr>entry_role = ''system'', entry_content = ''Delegating content creation: '' @ ty,
       entry_agent = ''coordinator'', entry_timestamp = isoformat_now E (clock w)\<rparr>]
     [] [(creative_agent, p)]"
  by (auto simp: delegate_content_creation_begin_def creative_agent_run_def step_defs)

lemma delegate_research_end_grows:
  "delegate_research_end E answer w = (res, w') \<Longrightarrow>
   (case res of
      Inl e \<Rightarrow> w' = w
    | Inr r \<Rightarrow> \<exists>t. grows w w' [] [t] [] \<and> completed_by ''research'' ''research_agent'' t)"
  by (auto simp: delegate_research_end_def Let_def step_defs split: sum.splits prod.splits)

lemma delegate_code_analysis_end_grows:
  "delegate_code_analysis_end E answer w = (res, w') \<Longrightarrow>
   (case res of
      Inl e \<Rightarrow> w' = w
    | Inr r \<Rightarrow> \<exists>t. grows w w' [] [t] [] \<and> completed_by ''code_analysis'' ''code_agent'' t)"
  by (auto simp: delegate_code_analysis_end_def Let_def step_defs split: sum.splits prod.splits)

lemma delegate_content_creation_end_grows:
  "delegate_content_creation_end E answer w = (res, w') \<Longrightarrow>
   (case res of
      Inl e \<Rightarrow> w' = w
    | Inr r \<Rightarrow> \<exists>t. grows w w' [] [t] [] \<and>
               completed_by ''content_creation'' ''creative_agent'' t)"
  by (auto simp: delegate_content_creation_end_def Let_def step_defs
           split: sum.splits prod.splits)

lemma complex_begin_grows:
  "complex_begin E tp w = (answer, w') \<Longrightarrow>
   \<exists>e1 e2 p. grows w w' [e1, e2] [] [(research_agent, p)] \<and>
     system_entry e1 \<and> system_entry e2"
proof -
  assume a: "complex_begin E tp w = (answer, w')"
  let ?w1 = "add_conversation E ''system'' (''Starting complex analysis: '' @ tp)
               ''coordinator'' w"
  from a have "delegate_research_begin E tp ?w1 = (answer, w')"
    by (simp add: complex_begin_def)
  from grows_trans [OF add_conversation_grows delegate_research_begin_grows [OF this]]
  show ?thesis by (fastforce simp: system_entry_def)
qed

lemma complex_middle_grows:
  assumes "complex_middle E answer w = (res, w')"
  shows "case res of
           Inl e \<Rightarrow> w' = w
         | Inr x \<Rightarrow> \<exists>e t p. grows w w' [e] [t] [(creative_agent, p)] \<and> system_entry e \<and>
                     completed_by ''research'' ''research_agent'' t"
proof -
  obtain r w2 where r: "delegate_research_end E answer w = (r, w2)"
    by (cases "delegate_research_end E answer w")
  note g = delegate_research_end_grows [OF r]
  show ?thesis
  proof (cases r)
    case (Inl e)
    with assms r g show ?thesis by (auto simp: complex_middle_def)
  next
    case (Inr research_result)
    let ?req = "''Create a comprehensive report based on this research: '' @
                 summary research_result @ ''. Include the key points: '' @
                 join '', '' (key_points research_result)"
    obtain a' w3 where
      b: "delegate_content_creation_begin E ?req ''report'' ''professional'' ''analytical'' w2 =
            (a', w3)"
      by (cases "delegate_content_creation_begin E ?req ''report'' ''professional''
                   ''analytical'' w2")
    from assms r Inr b have res: "res = Inr (research_result, a')" "w' = w3"
      by (simp_all add: complex_middle_def Let_def)
    from g Inr obtain t where t: "grows w w2 [] [t] []"
      "completed_by ''research'' ''research_agent'' t" by auto
    from delegate_content_creation_begin_grows [OF b] obtain p where
      p: "grows w2 w3
            [\<lparr>entry_role = ''system'', entry_content = ''Delegating content creation: report'',
              entry_agent = ''coordinator'', entry_timestamp = isoformat_now E (clock w2)\<rparr>]
            [] [(creative_agent, p)]" by auto
    from grows_trans [OF t(1) p] t(2) res show ?thesis
      by (fastforce simp: system_entry_def)
  qed
qed

lemma complex_end_grows:
  assumes "complex_end E tp research_result answer w = (res, w')"
  shows "case res of
           Inl e \<Rightarrow> w' = w
         | Inr s \<Rightarrow> \<exists>t1 t2. grows w w' [] [t1, t2] [] \<and>
                     completed_by ''content_creation'' ''creative_agent'' t1 \<and>
                     task_type t2 = ''complex_analysis'' \<and>
                     agents_used t2 = [''research_agent'', ''creative_agent''] \<and>
                     status t2 = ''completed''"
proof -
  obtain r w3 where r: "delegate_content_creation_end E answer w = (r, w3)"
    by (cases "delegate_content_creation_end E answer w")
  note g = delegate_content_creation_end_grows [OF r]
  show ?thesis
  proof (cases r)
    case (Inl e)
    with assms r g show ?thesis by (auto simp: complex_end_def)
  next
    case (Inr content_result)
    from g Inr obtain t1 where t1: "grows w w3 [] [t1] []"
      "completed_by ''content_creation'' ''creative_agent'' t1" by auto
    obtain t2 w4 where t2: "TaskSummary_init E ''complex_analysis''
                    [''research_agent'', ''creative_agent''] ''completed''
                    (''Complex analysis of '' @ quote @ tp @ quote @
                     '' with research and report generation'') w3 = (t2, w4)"
      by (simp add: TaskSummary_init_def)
    from assms r Inr t2 have res: "\<exists>s. res = Inr s" "w' = add_task_result t2 w4"
      by (auto simp: complex_end_def Let_def)
    from TaskSummary_init_grows [OF t2] have
      g3: "grows w3 w4 [] [] []" and
      p3: "task_type t2 = ''complex_analysis''"
          "agents_used t2 = [''research_agent'', ''creative_agent'']"
          "status t2 = ''completed''"
      by simp_all
    from grows_trans [OF grows_trans [OF t1(1) g3] add_task_result_grows, of t2]
    have "grows w w' [] [t1, t2] []" using res by simp
    with t1 p3 have "\<exists>t1 t2. grows w w' [] [t1, t2] [] \<and>
                     completed_by ''content_creation'' ''creative_agent'' t1 \<and>
                     task_type t2 = ''complex_analysis'' \<and>
                     agents_used t2 = [''research_agent'', ''creative_agent''] \<and>
                     status t2 = ''completed''"
      by (intro exI [of _ t1] exI [of _ t2]) simp
    moreover from res obtain s where "res = Inr s" by blast
    ultimately show ?thesis by simp
  qed
qed

section \<open>A run of the coordinator\<close>

lemma completed_by_single: "completed_by ty a t \<Longrightarrow> single_specialist t"
  by (simp add: completed_by_def single_specialist_def)

lemma effect_refl: "effect w w 0 0"
  unfolding effect_def using grows_refl [of w]
  by (intro exI [of _ "[]"]) simp

lemma effect_trans:
  assumes "effect w w1 a b" and "effect w1 w2 c d"
  shows "effect w w2 (a + c) (b + d)"
proof -
  from assms(1) obtain es ts rs where 1: "grows w w1 es ts rs" "list_all system_entry es"
    "list_all is_specialist_run rs" "length (filter single_specialist ts) = a" "length rs = b"
    unfolding effect_def by blast
  from assms(2) obtain es' ts' rs' where 2: "grows w1 w2 es' ts' rs'"
    "list_all system_entry es'" "list_all is_specialist_run rs'"
    "length (filter single_specialist ts') = c" "length rs' = d"
    unfolding effect_def by blast
  from grows_trans [OF 1(1) 2(1)] 1 2 show ?thesis
    unfolding effect_def
    by (intro exI [of _ "es @ es'"] exI [of _ "ts @ ts'"] exI [of _ "rs @ rs'"]) simp
qed

lemma effectI:
  "grows w w' es ts rs \<Longrightarrow> list_all system_entry es \<Longrightarrow> list_all is_specialist_run rs \<Longrightarrow>
   length (filter single_specialist ts) = k \<Longrightarrow> length rs = n \<Longrightarrow> effect w w' k n"
  unfolding effect_def by blast

lemma start_tool_effect:
  assumes "start_tool E c w = (p, w')"
  shows "effect w w' 0 (case p of Done out \<Rightarrow> 0 | Wait t \<Rightarrow> 1)"
proof (cases c)
  case (Delegate_research tp)
  with assms obtain a where b: "delegate_research_begin E tp w = (a, w')"
    and p: "p = Wait (Await_research a)"
    by (auto split: prod.splits)
  from delegate_research_begin_grows [OF b] show ?thesis unfolding p
    by (rule effectI) (simp_all add: system_entry_def is_specialist_run_def)
next
  case (Delegate_code_analysis code lang)
  with assms obtain a where
    b: "delegate_code_analysis_begin E code (default_arg ''auto-detect'' lang) w = (a, w')"
    and p: "p = Wait (Await_code a)"
    by (auto split: prod.splits)
  from delegate_code_analysis_begin_grows [OF b] obtain q where
    "grows w w'
       [\<lparr>entry_role = ''system'',
         entry_content = ''Delegating code analysis for '' @ default_arg ''auto-detect'' lang,
         entry_agent = ''coordinator'', entry_timestamp = isoformat_now E (clock w)\<rparr>]
       [] [(code_agent, q)]" by blast
  then show ?thesis unfolding p
    by (rule effectI) (simp_all add: system_entry_def is_specialist_run_def)
next
  case (Delegate_content_creation req ty au tn)
  with assms obtain a where
    b: "delegate_content_creation_begin E req (default_arg ''article'' ty)
          (default_arg ''general'' au) (default_arg ''professional'' tn) w = (a, w')"
    and p: "p = Wait (Await_creative a)"
    by (auto split: prod.splits)
  from delegate_content_creation_begin_grows [OF b] obtain q where
    "grows w w'
       [\<lparr>entry_role = ''system'',
         entry_content = ''Delegating content creation: '' @ default_arg ''article'' ty,
         entry_agent = ''coordinator'', entry_timestamp = isoformat_now E (clock w)\<rparr>]
       [] [(creative_agent, q)]" by blast
  then show ?thesis unfolding p
    by (rule effectI) (simp_all add: system_entry_def is_specialist_run_def)
next
  case Get_task_history
  with assms have "w' = w" "p = Done (Out_text (get_task_history (ctx w)))" by auto
  then show ?thesis using effect_refl [of w] by simp
next
  case (Complex_research_analysis tp)
  with assms obtain a where b: "complex_begin E tp w = (a, w')"
    and p: "p = Wait (Await_complex_research tp a)"
    by (auto split: prod.splits)
  from complex_begin_grows [OF b] obtain e1 e2 q where
    "grows w w' [e1, e2] [] [(research_agent, q)]" "system_entry e1" "system_entry e2"
    by blast
  then show ?thesis unfolding p
    by (intro effectI [of w w' "[e1, e2]" "[]" "[(research_agent, q)]"])
       (simp_all add: is_specialist_run_def)
qed

lemma resume_effect:
  assumes "resume E t w = (res, w')"
  shows "case res of
           Inl e \<Rightarrow> w' = w
         | Inr p \<Rightarrow> effect w w' 1 (case p of Done out \<Rightarrow> 0 | Wait t' \<Rightarrow> 1)"
proof (cases t)
  case (Await_research a)
  with assms obtain r where r: "delegate_research_end E a w = (r, w')"
    and res: "res = map_sum id (\<lambda>x. Done (Out_research x)) r"
    by (auto split: prod.splits sum.splits)
  from delegate_research_end_grows [OF r] show ?thesis unfolding res
    by (cases r) (auto intro: effectI simp: completed_by_single)
next
  case (Await_code a)
  with assms obtain r where r: "delegate_code_analysis_end E a w = (r, w')"
    and res: "res = map_sum id (\<lambda>x. Done (Out_code x)) r"
    by (auto split: prod.splits sum.splits)
  from delegate_code_analysis_end_grows [OF r] show ?thesis unfolding res
    by (cases r) (auto intro: effectI simp: completed_by_single)
next
  case (Await_creative a)
  with assms obtain r where r: "delegate_content_creation_end E a w = (r, w')"
    and res: "res = map_sum id (\<lambda>x. Done (Out_creative x)) r"
    by (auto split: prod.splits sum.splits)
  from delegate_content_creation_end_grows [OF r] show ?thesis unfolding res
    by (cases r) (auto intro: effectI simp: completed_by_single)
next
  case (Await_complex_research tp a)
  with assms obtain r where r: "complex_middle E a w = (r, w')"
    and res: "res = map_sum id (\<lambda>(rr, a'). Wait (Await_complex_creative tp rr a')) r"
    by (auto split: prod.splits sum.splits)
  from complex_middle_grows [OF r] show ?thesis unfolding res
    by (cases r)
       (auto intro!: effectI simp: completed_by_single is_specialist_run_def split: prod.splits)
next
  case (Await_complex_creative tp rr a)
  with assms obtain r where r: "complex_end E tp rr a w = (r, w')"
    and res: "res = map_sum id (\<lambda>s. Done (Out_text s)) r"
    by (auto split: prod.splits sum.splits)
  from complex_end_grows [OF r] show ?thesis unfolding res
    by (cases r)
       (auto intro!: effectI simp: completed_by_def single_specialist_def)
qed

text \<open>An event that raises leaves the state as it was.\<close>

lemma step_effect:
  assumes "step E ev (ts, w) = (res, w')"
  shows "case res of
           Inl e \<Rightarrow> w' = w
         | Inr ts' \<Rightarrow> \<exists>k n. effect w w' k n \<and> k + length ts' = n + length ts"
proof (cases ev)
  case (Start c)
  obtain p w1 where s: "start_tool E c w = (p, w1)" by (cases "start_tool E c w")
  note e = start_tool_effect [OF s]
  show ?thesis
  proof (cases p)
    case (Done out)
    with assms Start s have "res = Inr ts" "w' = w1" by simp_all
    with e Done show ?thesis by auto
  next
    case (Wait t)
    with assms Start s have "res = Inr (ts @ [t])" "w' = w1" by simp_all
    with e Wait show ?thesis by auto
  qed
next
  case (Resume i)
  show ?thesis
  proof (cases "i < length ts")
    case False
    with assms Resume have "res = Inr ts" "w' = w" by simp_all
    with effect_refl [of w] show ?thesis by auto
  next
    case True
    obtain r w1 where r: "resume E (ts ! i) w = (r, w1)" by (cases "resume E (ts ! i) w")
    note e = resume_effect [OF r]
    show ?thesis
    proof (cases r)
      case (Inl x)
      with assms Resume True r have "res = Inl x" "w' = w1" by simp_all
      with e Inl show ?thesis by simp
    next
      case (Inr p)
      show ?thesis
      proof (cases p)
        case (Done out)
        with assms Resume True r Inr
        have "res = Inr (take i ts @ drop (Suc i) ts)" "w' = w1" by simp_all
        moreover from e Inr Done have "effect w w1 1 0" by simp
        moreover from True have "1 + length (take i ts @ drop (Suc i) ts) = 0 + length ts"
          by simp
        ultimately have "\<exists>k n. effect w w' k n \<and>
            k + length (take i ts @ drop (Suc i) ts) = n + length ts"
          by blast
        with \<open>res = Inr (take i ts @ drop (Suc i) ts)\<close> show ?thesis by simp
      next
        case (Wait t)
        with assms Resume True r Inr have "res = Inr (ts[i := t])" "w' = w1" by simp_all
        moreover from e Inr Wait have "effect w w1 1 1" by simp
        ultimately show ?thesis by auto
      qed
    qed
  qed
qed

lemma run_events_effect:
  "run_events E evs (ts, w) = (res, w') \<Longrightarrow>
   \<exists>k n. effect w w' k n \<and>
     (case res of Inl e \<Rightarrow> k \<le> n + length ts | Inr ts' \<Rightarrow> k + length ts' = n + length ts)"
proof (induction evs arbitrary: ts w)
  case Nil
  then have "res = Inr ts" "w' = w" by simp_all
  with effect_refl [of w] show ?case by auto
next
  case (Cons ev evs)
  obtain r w1 where s: "step E ev (ts, w) = (r, w1)" by (cases "step E ev (ts, w)")
  note e = step_effect [OF s]
  show ?case
  proof (cases r)
    case (Inl x)
    with Cons.prems s have "res = Inl x" "w' = w1" by simp_all
    with e Inl effect_refl [of w] show ?thesis by auto
  next
    case (Inr ts1)
    with e obtain k n where 1: "effect w w1 k n" "k + length ts1 = n + length ts" by auto
    from Cons.prems s Inr have "run_events E evs (ts1, w1) = (res, w')" by simp
    from Cons.IH [OF this] obtain k' n' where 2: "effect w1 w' k' n'"
      "case res of Inl e \<Rightarrow> k' \<le> n' + length ts1
       | Inr ts' \<Rightarrow> k' + length ts' = n' + length ts1" by blast
    have "case res of Inl e \<Rightarrow> k + k' \<le> (n + n') + length ts
          | Inr ts' \<Rightarrow> (k + k') + length ts' = (n + n') + length ts"
      using 1(2) 2(2) by (cases res) auto
    with effect_trans [OF 1(1) 2(1)] show ?thesis by blast
  qed
qed


lemma finish_task_effect:
  "finish_task E t w = (res, w') \<Longrightarrow>
   \<exists>k n. effect w w' k n \<and> (case res of Inl e \<Rightarrow> k \<le> n + 1 | Inr out \<Rightarrow> k = n + 1)"
proof (induction E t w rule: finish_task.induct)
  case (1 E t w)
  obtain r w1 where r: "resume E t w = (r, w1)" by (cases "resume E t w")
  note e = resume_effect [OF r]
  show ?case
  proof (cases r)
    case (Inl x)
    with "1.prems" r have "res = Inl x" "w' = w1" by simp_all
    with e Inl effect_refl [of w] show ?thesis by auto
  next
    case (Inr p)
    show ?thesis
    proof (cases p)
      case (Done out)
      with "1.prems" r Inr have "res = Inr out" "w' = w1" by simp_all
      moreover from e Inr Done have "effect w w1 1 0" by simp
      ultimately show ?thesis by auto
    next
      case (Wait t')
      with "1.prems" r Inr have f: "finish_task E t' w1 = (res, w')" by simp
      from e Inr Wait have 2: "effect w w1 1 1" by simp
      from "1.IH" [OF r [symmetric] Inr Wait f] obtain k n where
        3: "effect w1 w' k n" "case res of Inl e \<Rightarrow> k \<le> n + 1 | Inr out \<Rightarrow> k = n + 1"
        by blast
      have "case res of Inl e \<Rightarrow> 1 + k \<le> (1 + n) + 1 | Inr out \<Rightarrow> 1 + k = (1 + n) + 1"
        using 3(2) by (cases res) auto
      with effect_trans [OF 2 3(1)] show ?thesis by blast
    qed
  qed
qed

lemma finish_all_effect:
  "finish_all E ts w = (res, w') \<Longrightarrow>
   \<exists>k n. effect w w' k n \<and>
     (case res of Inl e \<Rightarrow> k \<le> n + length ts | Inr u \<Rightarrow> k = n + length ts)"
proof (induction ts arbitrary: w)
  case Nil
  then have "res = Inr ()" "w' = w" by simp_all
  with effect_refl [of w] show ?case by auto
next
  case (Cons t ts)
  obtain r w1 where r: "finish_task E t w = (r, w1)" by (cases "finish_task E t w")
  from finish_task_effect [OF r] obtain k n where
    1: "effect w w1 k n" "case r of Inl e \<Rightarrow> k \<le> n + 1 | Inr out \<Rightarrow> k = n + 1" by blast
  show ?case
  proof (cases r)
    case (Inl x)
    with Cons.prems r have "res = Inl x" "w' = w1" by simp_all
    moreover from 1 Inl have "effect w w1 k n \<and> k \<le> n + length (t # ts)" by simp
    ultimately show ?thesis by auto
  next
    case (Inr out)
    with Cons.prems r have "finish_all E ts w1 = (res, w')" by simp
    from Cons.IH [OF this] obtain k' n' where 2: "effect w1 w' k' n'"
      "case res of Inl e \<Rightarrow> k' \<le> n' + length ts | Inr u \<Rightarrow> k' = n' + length ts" by blast
    have "case res of Inl e \<Rightarrow> k + k' \<le> (n + n') + length (t # ts)
          | Inr u \<Rightarrow> k + k' = (n + n') + length (t # ts)"
      using 1(2) 2(2) Inr by (cases res) auto
    with effect_trans [OF 1(1) 2(1)] show ?thesis by blast
  qed
qed

text \<open>
  A run of the coordinator that returns has added as many summaries naming one agent as it has
  run specialists; a run that raises has added at most as many.
\<close>

lemma coordinator_agent_run_effect:
  assumes "coordinator_agent_run E u w = (res, w')"
  shows "\<exists>k n. effect (record_run coordinator_agent u w) w' k n \<and>
           (case res of Inl e \<Rightarrow> k \<le> n | Inr answer \<Rightarrow> k = n)"
proof -
  let ?w0 = "record_run coordinator_agent u w"
  obtain schedule final where cm: "coordinator_model E (length (runs w)) u = (schedule, final)"
    by (cases "coordinator_model E (length (runs w)) u")
  obtain r w1 where r: "run_events E schedule ([], ?w0) = (r, w1)"
    by (cases "run_events E schedule ([], ?w0)")
  from run_events_effect [OF r] obtain k n where
    1: "effect ?w0 w1 k n"
       "case r of Inl e \<Rightarrow> k \<le> n + length ([] :: waiting list)
        | Inr ts' \<Rightarrow> k + length ts' = n + length ([] :: waiting list)" by blast
  show ?thesis
  proof (cases r)
    case (Inl x)
    with assms cm r have "res = Inl x" "w' = w1" by (simp_all add: coordinator_agent_run_def)
    with 1 Inl show ?thesis by auto
  next
    case (Inr ts)
    obtain r2 w2 where r2: "finish_all E ts w1 = (r2, w2)" by (cases "finish_all E ts w1")
    from finish_all_effect [OF r2] obtain k' n' where 2: "effect w1 w2 k' n'"
      "case r2 of Inl e \<Rightarrow> k' \<le> n' + length ts | Inr u \<Rightarrow> k' = n' + length ts" by blast
    from assms cm r Inr r2 have w': "w' = w2" and
      res: "res = (case r2 of Inl e \<Rightarrow> Inl e | Inr u \<Rightarrow> final)"
      by (auto simp: coordinator_agent_run_def split: sum.splits)
    have "case res of Inl e \<Rightarrow> k + k' \<le> n + n' | Inr answer \<Rightarrow> k + k' = n + n'"
      using 1(2) 2(2) Inr res by (cases r2; cases final) auto
    with effect_trans [OF 1(1) 2(1)] w' show ?thesis by blast
  qed
qed

section \<open>Single delegations and the complex analysis\<close>

lemmas sample_defs = sample_env_def research_down_env_def creative_down_env_def
  together_env_def sample_world_def
  sample_research_def sample_code_def sample_creative_def MultiAgentContext_init_def

lemmas validate_defs = validate_ResearchResult_def validate_CodeAnalysis_def
  validate_CreativeContent_def ResearchResult_errors_def CodeAnalysis_errors_def
  CreativeContent_errors_def key_points_errors_def complexity_score_errors_def required_def
  default_list_def

lemmas tool_defs = delegate_research_def delegate_code_analysis_def delegate_content_creation_def
  complex_research_analysis_def research_agent_run_def code_agent_run_def creative_agent_run_def
  answered_def
  TaskSummary_init_def add_conversation_def add_task_result_def store_agent_result_def
  record_run_def

text \<open>
  C5. A delegation to one specialist that returns a result has appended exactly one task
  summary: its \<open>agents_used\<close> is the one-element list naming the specialist, its
  \<open>task_type\<close> is the specialization, and its \<open>status\<close> is \<open>completed\<close>. This holds of
  research, of code analysis and of content creation.
\<close>

theorem single_delegation_one_task:
  "(delegate_research E tp w = (Inr r1, w1) \<longrightarrow>
      (\<exists>t. task_history (ctx w1) = task_history (ctx w) @ [t] \<and>
           task_type t = ''research'' \<and> agents_used t = [''research_agent''] \<and>
           status t = ''completed'')) \<and>
   (delegate_code_analysis E code lang w = (Inr r2, w2) \<longrightarrow>
      (\<exists>t. task_history (ctx w2) = task_history (ctx w) @ [t] \<and>
           task_type t = ''code_analysis'' \<and> agents_used t = [''code_agent''] \<and>
           status t = ''completed'')) \<and>
   (delegate_content_creation E req ty au tn w = (Inr r3, w3) \<longrightarrow>
      (\<exists>t. task_history (ctx w3) = task_history (ctx w) @ [t] \<and>
           task_type t = ''content_creation'' \<and> agents_used t = [''creative_agent''] \<and>
           status t = ''completed''))"
proof (intro conjI impI)
  assume "delegate_research E tp w = (Inr r1, w1)"
  from delegate_research_grows [OF this] show
    "\<exists>t. task_history (ctx w1) = task_history (ctx w) @ [t] \<and>
         task_type t = ''research'' \<and> agents_used t = [''research_agent''] \<and>
         status t = ''completed''"
    by (auto simp: grows_def completed_by_def)
next
  assume "delegate_code_analysis E code lang w = (Inr r2, w2)"
  from delegate_code_analysis_grows [OF this] show
    "\<exists>t. task_history (ctx w2) = task_history (ctx w) @ [t] \<and>
         task_type t = ''code_analysis'' \<and> agents_used t = [''code_agent''] \<and>
         status t = ''completed''"
    by (auto simp: grows_def completed_by_def)
next
  assume "delegate_content_creation E req ty au tn w = (Inr r3, w3)"
  from delegate_content_creation_grows [OF this] show
    "\<exists>t. task_history (ctx w3) = task_history (ctx w) @ [t] \<and>
         task_type t = ''content_creation'' \<and> agents_used t = [''creative_agent''] \<and>
         status t = ''completed''"
    by (auto simp: grows_def completed_by_def)
qed

theorem single_delegation_one_task_witness:
  "(\<exists>r w'. delegate_research sample_env ''AI'' sample_world = (Inr r, w') \<and>
      (\<exists>t. task_history (ctx w') = task_history (ctx sample_world) @ [t] \<and>
           task_type t = ''research'' \<and> agents_used t = [''research_agent''] \<and>
           status t = ''completed'')) \<and>
   (\<exists>r w'. delegate_code_analysis sample_env ''x = 1'' ''Python'' sample_world = (Inr r, w') \<and>
      (\<exists>t. task_history (ctx w') = task_history (ctx sample_world) @ [t] \<and>
           task_type t = ''code_analysis'' \<and> agents_used t = [''code_agent''] \<and>
           status t = ''completed'')) \<and>
   (\<exists>r w'. delegate_content_creation sample_env ''AI'' ''report'' ''general'' ''dry''
              sample_world = (Inr r, w') \<and>
      (\<exists>t. task_history (ctx w') = task_history (ctx sample_world) @ [t] \<and>
           task_type t = ''content_creation'' \<and> agents_used t = [''creative_agent''] \<and>
           status t = ''completed''))"
proof -
  obtain r1 w1 where h1: "delegate_research sample_env ''AI'' sample_world = (Inr r1, w1)"
    by (simp add: sample_defs tool_defs validate_defs)
  obtain r2 w2 where
    h2: "delegate_code_analysis sample_env ''x = 1'' ''Python'' sample_world = (Inr r2, w2)"
    by (simp add: sample_defs tool_defs validate_defs)
  obtain r3 w3 where
    h3: "delegate_content_creation sample_env ''AI'' ''report'' ''general'' ''dry''
           sample_world = (Inr r3, w3)"
    by (simp add: sample_defs tool_defs validate_defs)
  from single_delegation_one_task [of sample_env "''AI''" sample_world r1 w1
         "''x = 1''" "''Python''" r2 w2 "''AI''" "''report''" "''general''" "''dry''" r3 w3]
       h1 h2 h3
  show ?thesis by blast
qed

text \<open>
  C1. A complex analysis that returns has appended exactly three task summaries, in this order:
  the research summary, the content creation summary and the summary of the complex analysis;
  the last one lists the research agent and then the creative agent, which is the order in which
  the two specialists were run.
\<close>

theorem complex_analysis_three_tasks:
  assumes "complex_research_analysis E tp w = (Inr text, w')"
  shows "\<exists>t1 t2 t3 p1 p2.
           task_history (ctx w') = task_history (ctx w) @ [t1, t2, t3] \<and>
           task_type t1 = ''research'' \<and> agents_used t1 = [''research_agent''] \<and>
           task_type t2 = ''content_creation'' \<and> agents_used t2 = [''creative_agent''] \<and>
           task_type t3 = ''complex_analysis'' \<and>
           agents_used t3 = [''research_agent'', ''creative_agent''] \<and>
           status t3 = ''completed'' \<and>
           runs w' = runs w @ [(research_agent, p1), (creative_agent, p2)]"
  using complex_research_analysis_grows [OF assms]
  by (auto simp: grows_def completed_by_def)

theorem complex_analysis_three_tasks_witness:
  "\<exists>text w'. complex_research_analysis sample_env ''AI'' sample_world = (Inr text, w') \<and>
     (\<exists>t1 t2 t3 p1 p2.
           task_history (ctx w') = task_history (ctx sample_world) @ [t1, t2, t3] \<and>
           task_type t1 = ''research'' \<and> agents_used t1 = [''research_agent''] \<and>
           task_type t2 = ''content_creation'' \<and> agents_used t2 = [''creative_agent''] \<and>
           task_type t3 = ''complex_analysis'' \<and>
           agents_used t3 = [''research_agent'', ''creative_agent''] \<and>
           status t3 = ''completed'' \<and>
           runs w' = runs sample_world @ [(research_agent, p1), (creative_agent, p2)])"
proof -
  obtain text' w' where
    h: "complex_research_analysis sample_env ''AI'' sample_world = (Inr text', w')"
    by (simp add: sample_defs tool_defs validate_defs)
  from complex_analysis_three_tasks [OF h] h show ?thesis by blast
qed

section \<open>The task history report\<close>

lemma render_task_acc: "render_task acc x = acc @ render_task [] x"
  by (cases x) (simp add: render_task_def)

lemma foldl_render_task: "foldl render_task acc xs = acc @ concat (map (render_task []) xs)"
proof (induction xs arbitrary: acc)
  case Nil
  show ?case by simp
next
  case (Cons x xs)
  have "foldl render_task acc (x # xs) = foldl render_task (render_task acc x) xs" by simp
  also have "\<dots> = render_task acc x @ concat (map (render_task []) xs)" by (rule Cons.IH)
  also have "\<dots> = acc @ concat (map (render_task []) (x # xs))"
    by (simp add: render_task_acc [of acc])
  finally show ?case .
qed

lemma slice_from_last: "0 < k \<Longrightarrow> slice_from (- k) xs = drop (length xs - nat k) xs"
  by (auto simp: slice_from_def Let_def max_def nat_diff_distrib' intro: arg_cong [where f = "\<lambda>n. drop n xs"])

lemma get_task_history_last_five:
  "task_history c \<noteq> [] \<Longrightarrow>
   get_task_history c =
     bar_chart @ '' Session '' @ session_id c @ '' - '' @
     str_int (int (length (task_history c))) @ '' tasks completed:'' @ newline @ newline @
     concat (map (render_task [])
       (enumerate_from 1 (drop (length (task_history c) - 5) (task_history c))))"
  by (simp add: get_task_history_def foldl_render_task slice_from_last)

text \<open>
  C6. On a context without task summaries the report is the fixed message. On a context with
  seven task summaries the report is the header line, which gives the session and the number 7,
  and after it one block of two lines for each of the third to the seventh summary, in that
  order and numbered from 1 to 5: the number, the task type in upper case and the result
  summary, then the agents, joined by commas, and the status. Nothing of the first two
  summaries is in it. The task types are ASCII text, as are all that the program writes.
\<close>

theorem task_history_report:
  "(task_history c = [] \<longrightarrow> get_task_history c = ''No tasks completed yet in this session.'') \<and>
   (task_history c = [t1, t2, t3, t4, t5, t6, t7] \<and>
    ascii (task_type t3) \<and> ascii (task_type t4) \<and> ascii (task_type t5) \<and>
    ascii (task_type t6) \<and> ascii (task_type t7) \<longrightarrow>
      get_task_history c =
        [CHR 0xF0, CHR 0x9F, CHR 0x93, CHR 0x8A] @ '' Session '' @ session_id c @
        '' - 7 tasks completed:'' @ [CHR 0x0A, CHR 0x0A] @
        ''1. '' @ upper (task_type t3) @ '': '' @ result_summary t3 @ [CHR 0x0A] @
        ''   Agents: '' @ join '', '' (agents_used t3) @ '' | Status: '' @ status t3 @
        [CHR 0x0A, CHR 0x0A] @
        ''2. '' @ upper (task_type t4) @ '': '' @ result_summary t4 @ [CHR 0x0A] @
        ''   Agents: '' @ join '', '' (agents_used t4) @ '' | Status: '' @ status t4 @
        [CHR 0x0A, CHR 0x0A] @
        ''3. '' @ upper (task_type t5) @ '': '' @ result_summary t5 @ [CHR 0x0A] @
        ''   Agents: '' @ join '', '' (agents_used t5) @ '' | Status: '' @ status t5 @
        [CHR 0x0A, CHR 0x0A] @
        ''4. '' @ upper (task_type t6) @ '': '' @ result_summary t6 @ [CHR 0x0A] @
        ''   Agents: '' @ join '', '' (agents_used t6) @ '' | Status: '' @ status t6 @
        [CHR 0x0A, CHR 0x0A] @
        ''5. '' @ upper (task_type t7) @ '': '' @ result_summary t7 @ [CHR 0x0A] @
        ''   Agents: '' @ join '', '' (agents_used t7) @ '' | Status: '' @ status t7 @
        [CHR 0x0A, CHR 0x0A])"
proof (intro conjI impI)
  assume "task_history c = []"
  then show "get_task_history c = ''No tasks completed yet in this session.''"
    by (simp add: get_task_history_def)
next
  assume seven: "task_history c = [t1, t2, t3, t4, t5, t6, t7] \<and>
    ascii (task_type t3) \<and> ascii (task_type t4) \<and> ascii (task_type t5) \<and>
    ascii (task_type t6) \<and> ascii (task_type t7)"
  then have "task_history c \<noteq> []" by simp
  from get_task_history_last_five [OF this] seven
  show "get_task_history c =
        [CHR 0xF0, CHR 0x9F, CHR 0x93, CHR 0x8A] @ '' Session '' @ session_id c @
        '' - 7 tasks completed:'' @ [CHR 0x0A, CHR 0x0A] @
        ''1. '' @ upper (task_type t3) @ '': '' @ result_summary t3 @ [CHR 0x0A] @
        ''   Agents: '' @ join '', '' (agents_used t3) @ '' | Status: '' @ status t3 @
        [CHR 0x0A, CHR 0x0A] @
        ''2. '' @ upper (task_type t4) @ '': '' @ result_summary t4 @ [CHR 0x0A] @
        ''   Agents: '' @ join '', '' (agents_used t4) @ '' | Status: '' @ status t4 @
        [CHR 0x0A, CHR 0x0A] @
        ''3. '' @ upper (task_type t5) @ '': '' @ result_summary t5 @ [CHR 0x0A] @
        ''   Agents: '' @ join '', '' (agents_used t5) @ '' | Status: '' @ status t5 @
        [CHR 0x0A, CHR 0x0A] @
        ''4. '' @ upper (task_type t6) @ '': '' @ result_summary t6 @ [CHR 0x0A] @
        ''   Agents: '' @ join '', '' (agents_used t6) @ '' | Status: '' @ status t6 @
        [CHR 0x0A, CHR 0x0A] @
        ''5. '' @ upper (task_type t7) @ '': '' @ result_summary t7 @ [CHR 0x0A] @
        ''   Agents: '' @ join '', '' (agents_used t7) @ '' | Status: '' @ status t7 @
        [CHR 0x0A, CHR 0x0A]"
    by (simp add: render_task_def bar_chart_def newline_def str_int_def digits.simps
          digit_char_def)
qed

theorem task_history_report_witness:
  "task_history (MultiAgentContext_init sample_env 0) = [] \<and>
   get_task_history (MultiAgentContext_init sample_env 0) =
     ''No tasks completed yet in this session.'' \<and>
   length (task_history seven_tasks) = 7 \<and>
   get_task_history seven_tasks =
     [CHR 0xF0, CHR 0x9F, CHR 0x93, CHR 0x8A] @
     '' Session 20250101_000000 - 7 tasks completed:'' @ [CHR 0x0A, CHR 0x0A] @
     ''1. CONTENT_CREATION: three'' @ [CHR 0x0A] @
     ''   Agents: creative_agent | Status: completed'' @ [CHR 0x0A, CHR 0x0A] @
     ''2. COMPLEX_ANALYSIS: four'' @ [CHR 0x0A] @
     ''   Agents: research_agent, creative_agent | Status: completed'' @ [CHR 0x0A, CHR 0x0A] @
     ''3. RESEARCH: five'' @ [CHR 0x0A] @
     ''   Agents: research_agent | Status: completed'' @ [CHR 0x0A, CHR 0x0A] @
     ''4. CODE_ANALYSIS: six'' @ [CHR 0x0A] @
     ''   Agents: code_agent | Status: completed'' @ [CHR 0x0A, CHR 0x0A] @
     ''5. CONTENT_CREATION: seven'' @ [CHR 0x0A] @
     ''   Agents: creative_agent | Status: completed'' @ [CHR 0x0A, CHR 0x0A]"
proof -
  have e: "task_history (MultiAgentContext_init sample_env 0) = []"
    by (simp add: MultiAgentContext_init_def)
  have s: "task_history seven_tasks =
          [sample_task ''research'' [''research_agent''] ''one'',
           sample_task ''code_analysis'' [''code_agent''] ''two'',
           sample_task ''content_creation'' [''creative_agent''] ''three'',
           sample_task ''complex_analysis'' [''research_agent'', ''creative_agent''] ''four'',
           sample_task ''research'' [''research_agent''] ''five'',
           sample_task ''code_analysis'' [''code_agent''] ''six'',
           sample_task ''content_creation'' [''creative_agent''] ''seven'']"
    by (simp add: seven_tasks_def)
  have a: "ascii ''content_creation''" "ascii ''complex_analysis''" "ascii ''research''"
    "ascii ''code_analysis''"
    by (simp_all add: ascii_def)
  have i: "session_id seven_tasks = ''20250101_000000''"
    by (simp add: seven_tasks_def MultiAgentContext_init_def sample_env_def)
  from task_history_report [of "MultiAgentContext_init sample_env 0"] e
  have 1: "get_task_history (MultiAgentContext_init sample_env 0) =
     ''No tasks completed yet in this session.''" by simp
  from task_history_report [of seven_tasks
         "sample_task ''research'' [''research_agent''] ''one''"
         "sample_task ''code_analysis'' [''code_agent''] ''two''"
         "sample_task ''content_creation'' [''creative_agent''] ''three''"
         "sample_task ''complex_analysis'' [''research_agent'', ''creative_agent''] ''four''"
         "sample_task ''research'' [''research_agent''] ''five''"
         "sample_task ''code_analysis'' [''code_agent''] ''six''"
         "sample_task ''content_creation'' [''creative_agent''] ''seven''"] s a i
  have 2: "get_task_history seven_tasks =
     [CHR 0xF0, CHR 0x9F, CHR 0x93, CHR 0x8A] @
     '' Session 20250101_000000 - 7 tasks completed:'' @ [CHR 0x0A, CHR 0x0A] @
     ''1. CONTENT_CREATION: three'' @ [CHR 0x0A] @
     ''   Agents: creative_agent | Status: completed'' @ [CHR 0x0A, CHR 0x0A] @
     ''2. COMPLEX_ANALYSIS: four'' @ [CHR 0x0A] @
     ''   Agents: research_agent, creative_agent | Status: completed'' @ [CHR 0x0A, CHR 0x0A] @
     ''3. RESEARCH: five'' @ [CHR 0x0A] @
     ''   Agents: research_agent | Status: completed'' @ [CHR 0x0A, CHR 0x0A] @
     ''4. CODE_ANALYSIS: six'' @ [CHR 0x0A] @
     ''   Agents: code_agent | Status: completed'' @ [CHR 0x0A, CHR 0x0A] @
     ''5. CONTENT_CREATION: seven'' @ [CHR 0x0A] @
     ''   Agents: creative_agent | Status: completed'' @ [CHR 0x0A, CHR 0x0A]"
    by (simp add: sample_task_def upper_def upper_char_def)
  from e 1 s 2 show ?thesis by simp
qed

section \<open>The recent conversation\<close>

lemma get_recent_context_positive:
  "0 < n \<Longrightarrow>
   get_recent_context c n =
     join newline (map render_entry
       (drop (length (conversation_history c) - nat n) (conversation_history c)))"
  by (simp add: get_recent_context_def slice_from_last)

text \<open>
  C10. With the limit 0 the slice \<^verbatim>\<open>conversation_history[-0:]\<close> is the whole list: on a
  context with two entries \<open>get_recent_context\<close> renders both of them, where the last
  \<open>min 0 2 = 0\<close> entries would give the empty text.
\<close>

theorem get_recent_context_limit_zero:
  "get_recent_context two_entries 0 =
     ''[user] user: hi'' @ newline @ ''[coordinator] assistant: hello'' \<and>
   get_recent_context two_entries 0 \<noteq>
     join newline (map render_entry
       (drop (length (conversation_history two_entries) -
              min 0 (length (conversation_history two_entries)))
          (conversation_history two_entries)))"
  by (simp add: get_recent_context_def two_entries_def MultiAgentContext_init_def slice_from_def
        render_entry_def newline_def)

section \<open>Validation of the results\<close>

lemma validate_ResearchResult_accepts:
  "validate_ResearchResult raw = Inr r \<Longrightarrow>
   raw_key_points raw = Some (key_points r) \<and> 3 \<le> length (key_points r) \<and>
   length (key_points r) \<le> 5"
  by (auto simp: validate_ResearchResult_def ResearchResult_errors_def key_points_errors_def
           required_def split: option.splits if_splits)

lemma validate_ResearchResult_rejects:
  "validate_ResearchResult raw = Inl e \<Longrightarrow> e = SchemaViolation (ResearchResult_errors raw)"
  by (auto simp: validate_ResearchResult_def split: option.splits if_splits)

text \<open>
  C7. A research result that validation accepts has between three and five key points. A
  candidate with two or with six key points is rejected: validation raises the schema violation,
  and \<open>key_points\<close> is among the fields it names.
\<close>

theorem key_points_three_to_five:
  "(validate_ResearchResult raw = Inr r \<longrightarrow>
      3 \<le> length (key_points r) \<and> length (key_points r) \<le> 5) \<and>
   (raw_key_points raw = Some kp \<and> (length kp = 2 \<or> length kp = 6) \<longrightarrow>
      validate_ResearchResult raw = Inl (SchemaViolation (ResearchResult_errors raw)) \<and>
      ''key_points'' \<in> set (ResearchResult_errors raw))"
proof (intro conjI impI)
  assume "validate_ResearchResult raw = Inr r"
  then show "3 \<le> length (key_points r)" "length (key_points r) \<le> 5"
    using validate_ResearchResult_accepts by blast+
next
  assume kp: "raw_key_points raw = Some kp \<and> (length kp = 2 \<or> length kp = 6)"
  then show "''key_points'' \<in> set (ResearchResult_errors raw)"
    by (auto simp: ResearchResult_errors_def key_points_errors_def)
  show "validate_ResearchResult raw = Inl (SchemaViolation (ResearchResult_errors raw))"
  proof (cases "validate_ResearchResult raw")
    case (Inl e)
    then show ?thesis using validate_ResearchResult_rejects by simp
  next
    case (Inr r)
    from validate_ResearchResult_accepts [OF this] kp show ?thesis by auto
  qed
qed

theorem key_points_three_to_five_witness:
  "(\<exists>r. validate_ResearchResult sample_research = Inr r \<and>
        3 \<le> length (key_points r) \<and> length (key_points r) \<le> 5) \<and>
   raw_key_points two_points = Some [''a'', ''b''] \<and>
   validate_ResearchResult two_points = Inl (SchemaViolation [''key_points'']) \<and>
   raw_key_points six_points = Some [''a'', ''b'', ''c'', ''d'', ''e'', ''f''] \<and>
   validate_ResearchResult six_points = Inl (SchemaViolation [''key_points''])"
proof -
  obtain r where a: "validate_ResearchResult sample_research = Inr r"
    by (simp add: sample_research_def validate_defs)
  have two: "raw_key_points two_points = Some [''a'', ''b'']"
    by (simp add: two_points_def sample_research_def)
  have six: "raw_key_points six_points = Some [''a'', ''b'', ''c'', ''d'', ''e'', ''f'']"
    by (simp add: six_points_def sample_research_def)
  have e2: "ResearchResult_errors two_points = [''key_points'']"
    by (simp add: two_points_def sample_research_def validate_defs)
  have e6: "ResearchResult_errors six_points = [''key_points'']"
    by (simp add: six_points_def sample_research_def validate_defs)
  from key_points_three_to_five [of sample_research r] a
       key_points_three_to_five [of two_points _ "[''a'', ''b'']"] two e2
       key_points_three_to_five [of six_points _ "[''a'', ''b'', ''c'', ''d'', ''e'', ''f'']"]
       six e6
  show ?thesis by simp
qed

text \<open>
  C8. Validation of a creative content candidate does not look at the text when it takes the
  word count: \<open>sample_creative\<close>, whose content is \<open>hello world\<close> and whose word count is 7, is
  accepted as \<open>sample_accepted\<close> with the word count 7, and its content has two words.
\<close>

theorem word_count_not_checked:
  "validate_CreativeContent sample_creative = Inr sample_accepted \<and>
   word_count sample_accepted = 7 \<and>
   spec_word_count (content sample_accepted) = 2"
  by (simp add: sample_creative_def sample_accepted_def validate_defs spec_word_count_def
        is_space_def)

text \<open>
  C8, as the code has it. The word count of an accepted creative content is the integer that the
  candidate carried, and the content is the text that the candidate carried; the candidate is
  accepted with every other integer in the place of its word count as well.
\<close>

theorem word_count_as_given:
  assumes "validate_CreativeContent raw = Inr c"
  shows "raw_word_count raw = Some (word_count c) \<and> raw_content raw = Some (content c) \<and>
         validate_CreativeContent (raw\<lparr>raw_word_count := Some n\<rparr>) = Inr (c\<lparr>word_count := n\<rparr>)"
  using assms
  by (auto simp: validate_CreativeContent_def split: option.splits)

theorem word_count_as_given_witness:
  "\<exists>c. validate_CreativeContent sample_creative = Inr c \<and>
       raw_word_count sample_creative = Some (word_count c) \<and>
       raw_content sample_creative = Some (content c) \<and>
       validate_CreativeContent (sample_creative\<lparr>raw_word_count := Some 2\<rparr>) =
         Inr (c\<lparr>word_count := 2\<rparr>)"
proof -
  obtain c where h: "validate_CreativeContent sample_creative = Inr c"
    by (simp add: sample_creative_def validate_defs)
  from word_count_as_given [OF h, of 2] h show ?thesis by blast
qed

section \<open>Requests\<close>

lemmas piece_defs = delegate_research_begin_def delegate_research_end_def
  delegate_code_analysis_begin_def delegate_code_analysis_end_def
  delegate_content_creation_begin_def delegate_content_creation_end_def
  complex_begin_def complex_middle_def complex_end_def default_arg_def

lemmas request_defs = process_request_def process_request_try_def coordinator_agent_run_def
  error_prefix_def cross_mark_def

lemma process_request_raised:
  assumes "coordinator_agent_run E u (add_conversation E ''user'' u ''user'' w) = (Inl e, wb)"
  shows "process_request E u w =
           (Inr (error_prefix @ str_error E e),
            add_conversation E ''system'' (error_prefix @ str_error E e) ''error'' wb)"
  using assms by (simp add: process_request_def process_request_try_def Let_def)

lemma process_request_returned:
  assumes "coordinator_agent_run E u (add_conversation E ''user'' u ''user'' w) = (Inr answer, wb)"
  shows "process_request E u w =
           (Inr answer, add_conversation E ''assistant'' answer ''coordinator'' wb)"
  using assms by (simp add: process_request_def process_request_try_def Let_def)


text \<open>
  C2. \<open>process_request\<close> never ends with an exception: for every request it returns a
  response. When the run of the coordinator raises \<open>e\<close>, in a tool or in the coordinator's own
  model, the response is the cross mark, the words \<open>Error processing request:\<close> and the text of
  \<open>e\<close>, and a \<open>system\<close> entry with that text, written by the agent \<open>error\<close>, is appended to
  the conversation as it was when the run raised.
\<close>

theorem errors_become_responses:
  "(\<exists>response w'. process_request E user_input w = (Inr response, w')) \<and>
   (coordinator_agent_run E user_input
      (add_conversation E ''user'' user_input ''user'' w) = (Inl e, wb) \<longrightarrow>
    (\<exists>w'. process_request E user_input w =
            (Inr ([CHR 0xE2, CHR 0x9D, CHR 0x8C] @ '' Error processing request: '' @
                  str_error E e), w') \<and>
          conversation_history (ctx w') =
            conversation_history (ctx wb) @
              [\<lparr>entry_role = ''system'',
                entry_content = [CHR 0xE2, CHR 0x9D, CHR 0x8C] @
                  '' Error processing request: '' @ str_error E e,
                entry_agent = ''error'', entry_timestamp = isoformat_now E (clock wb)\<rparr>] \<and>
          task_history (ctx w') = task_history (ctx wb)))"
proof (intro conjI impI)
  show "\<exists>response w'. process_request E user_input w = (Inr response, w')"
  proof (cases "coordinator_agent_run E user_input
                  (add_conversation E ''user'' user_input ''user'' w)")
    case (Pair r wb)
    then show ?thesis
      using process_request_raised [of E user_input w _ wb]
            process_request_returned [of E user_input w _ wb]
      by (cases r) auto
  qed
next
  assume "coordinator_agent_run E user_input
            (add_conversation E ''user'' user_input ''user'' w) = (Inl e, wb)"
  from process_request_raised [OF this]
  show "\<exists>w'. process_request E user_input w =
            (Inr ([CHR 0xE2, CHR 0x9D, CHR 0x8C] @ '' Error processing request: '' @
                  str_error E e), w') \<and>
          conversation_history (ctx w') =
            conversation_history (ctx wb) @
              [\<lparr>entry_role = ''system'',
                entry_content = [CHR 0xE2, CHR 0x9D, CHR 0x8C] @
                  '' Error processing request: '' @ str_error E e,
                entry_agent = ''error'', entry_timestamp = isoformat_now E (clock wb)\<rparr>] \<and>
          task_history (ctx w') = task_history (ctx wb)"
    by (simp add: add_conversation_def error_prefix_def cross_mark_def)
qed

theorem errors_become_responses_witness:
  "\<exists>wb w'. coordinator_agent_run research_down_env ''AI''
             (add_conversation research_down_env ''user'' ''AI'' ''user'' sample_world) =
             (Inl (BackendUnavailable ''unreachable''), wb) \<and>
     process_request research_down_env ''AI'' sample_world =
       (Inr ([CHR 0xE2, CHR 0x9D, CHR 0x8C] @ '' Error processing request: unreachable''), w') \<and>
     map entry_role (conversation_history (ctx w')) = [''user'', ''system'', ''system''] \<and>
     entry_content (last (conversation_history (ctx w'))) =
       [CHR 0xE2, CHR 0x9D, CHR 0x8C] @ '' Error processing request: unreachable''"
proof -
  let ?E = research_down_env
  have "\<exists>wb. coordinator_agent_run ?E ''AI''
             (add_conversation ?E ''user'' ''AI'' ''user'' sample_world) =
             (Inl (BackendUnavailable ''unreachable''), wb) \<and>
        map entry_role (conversation_history (ctx wb)) = [''user'', ''system'']"
    by (simp add: coordinator_agent_run_def sample_defs tool_defs piece_defs)
  then obtain wb where h: "coordinator_agent_run ?E ''AI''
             (add_conversation ?E ''user'' ''AI'' ''user'' sample_world) =
             (Inl (BackendUnavailable ''unreachable''), wb)"
    and r: "map entry_role (conversation_history (ctx wb)) = [''user'', ''system'']"
    by (elim exE conjE) (rule that)
  from errors_become_responses [of ?E "''AI''" sample_world "BackendUnavailable ''unreachable''" wb]
       h
  obtain w' where
    p: "process_request ?E ''AI'' sample_world =
          (Inr ([CHR 0xE2, CHR 0x9D, CHR 0x8C] @ '' Error processing request: '' @
                str_error ?E (BackendUnavailable ''unreachable'')), w')" and
    c: "conversation_history (ctx w') =
            conversation_history (ctx wb) @
              [\<lparr>entry_role = ''system'',
                entry_content = [CHR 0xE2, CHR 0x9D, CHR 0x8C] @
                  '' Error processing request: '' @
                  str_error ?E (BackendUnavailable ''unreachable''),
                entry_agent = ''error'', entry_timestamp = isoformat_now ?E (clock wb)\<rparr>]"
    by (elim conjE impE exE) (assumption, rule that)
  from p have p': "process_request ?E ''AI'' sample_world =
       (Inr ([CHR 0xE2, CHR 0x9D, CHR 0x8C] @ '' Error processing request: unreachable''), w')"
    by simp
  from c r have c': "map entry_role (conversation_history (ctx w')) =
       [''user'', ''system'', ''system'']"
     "entry_content (last (conversation_history (ctx w'))) =
       [CHR 0xE2, CHR 0x9D, CHR 0x8C] @ '' Error processing request: unreachable''"
    by simp_all
  from h p' c' show ?thesis
    by (intro exI [of _ wb] exI [of _ w'] conjI)
qed

text \<open>
  C3. With the research model out of reach, a request appends a \<open>user\<close> entry and two
  \<open>system\<close> entries and no \<open>assistant\<close> entry; a specialist was run, and no task summary was
  appended.
\<close>

theorem failed_request_has_no_assistant_entry:
  "map entry_role
     (conversation_history (ctx (snd (process_request research_down_env ''AI'' sample_world)))) =
     [''user'', ''system'', ''system''] \<and>
   task_history (ctx (snd (process_request research_down_env ''AI'' sample_world))) = [] \<and>
   runs (snd (process_request research_down_env ''AI'' sample_world)) =
     [(coordinator_agent, ''AI''), (research_agent, ''Research this topic: AI'')]"
  by (simp add: request_defs Let_def sample_defs tool_defs piece_defs)

text \<open>
  The same, when two calls of one answer are started together and one of them fails: both
  specialists were run, and no task summary was appended.
\<close>

lemma failure_among_calls_started_together:
  "map entry_role
     (conversation_history (ctx (snd (process_request together_env ''AI'' sample_world)))) =
     [''user'', ''system'', ''system'', ''system''] \<and>
   task_history (ctx (snd (process_request together_env ''AI'' sample_world))) = [] \<and>
   map fst (runs (snd (process_request together_env ''AI'' sample_world))) =
     [coordinator_agent, research_agent, creative_agent]"
  by (simp add: request_defs Let_def sample_defs tool_defs piece_defs)

text \<open>
  C3, as the code has it. A request appends a \<open>user\<close> entry with the request first, then only
  \<open>system\<close> entries, and one last entry. When the run of the coordinator returns, the last entry
  is the \<open>assistant\<close> entry with the response, and the task summaries appended that name one
  agent are as many as the specialists run. When the run raises, the last entry is the \<open>system\<close>
  entry of the agent \<open>error\<close> with the response, no \<open>assistant\<close> entry is appended, and the
  task summaries that name one agent are at most as many as the specialists run. This holds of
  every schedule of the tool calls.
\<close>

theorem request_appends:
  assumes "coordinator_agent_run E user_input
             (add_conversation E ''user'' user_input ''user'' w) = (res, w2)"
  shows "\<exists>response w' u mid l ts rs.
           process_request E user_input w = (Inr response, w') \<and>
           conversation_history (ctx w') = conversation_history (ctx w) @ u # mid @ [l] \<and>
           entry_role u = ''user'' \<and> entry_content u = user_input \<and>
           list_all system_entry mid \<and>
           task_history (ctx w') = task_history (ctx w) @ ts \<and>
           runs w' = runs w @ (coordinator_agent, user_input) # rs \<and>
           list_all is_specialist_run rs \<and>
           (case res of
              Inr answer \<Rightarrow>
                response = answer \<and> entry_role l = ''assistant'' \<and> entry_content l = answer \<and>
                length (filter single_specialist ts) = length rs
            | Inl e \<Rightarrow>
                response = [CHR 0xE2, CHR 0x9D, CHR 0x8C] @ '' Error processing request: '' @
                           str_error E e \<and>
                entry_role l = ''system'' \<and> entry_agent l = ''error'' \<and>
                entry_content l = response \<and>
                length (filter single_specialist ts) \<le> length rs)"
proof -
  let ?w1 = "add_conversation E ''user'' user_input ''user'' w"
  let ?u = "\<lparr>entry_role = ''user'', entry_content = user_input, entry_agent = ''user'',
             entry_timestamp = isoformat_now E (clock w)\<rparr>"
  have g1: "grows w ?w1 [?u] [] []" by (rule add_conversation_grows)
  from coordinator_agent_run_effect [OF assms] obtain k n where
    "effect (record_run coordinator_agent user_input ?w1) w2 k n" and
    c: "case res of Inl e \<Rightarrow> k \<le> n | Inr answer \<Rightarrow> k = n" by blast
  then obtain es ts rs where
    g2: "grows (record_run coordinator_agent user_input ?w1) w2 es ts rs" and
    es: "list_all system_entry es" and rs: "list_all is_specialist_run rs" and
    k: "length (filter single_specialist ts) = k" and n: "length rs = n"
    unfolding effect_def by blast
  note g12 = grows_trans [OF grows_trans [OF g1 record_run_grows] g2]
  show ?thesis
  proof (cases res)
    case (Inl e)
    let ?resp = "error_prefix @ str_error E e"
    let ?l = "\<lparr>entry_role = ''system'', entry_content = ?resp, entry_agent = ''error'',
               entry_timestamp = isoformat_now E (clock w2)\<rparr>"
    let ?w' = "add_conversation E ''system'' ?resp ''error'' w2"
    from assms Inl have p: "process_request E user_input w = (Inr ?resp, ?w')"
      using process_request_raised by simp
    have g3: "grows w2 ?w' [?l] [] []" by (rule add_conversation_grows)
    from grows_trans [OF g12 g3]
    have "conversation_history (ctx ?w') = conversation_history (ctx w) @ ?u # es @ [?l]"
      "task_history (ctx ?w') = task_history (ctx w) @ ts"
      "runs ?w' = runs w @ (coordinator_agent, user_input) # rs"
      by (simp_all add: grows_def)
    with p es rs c k n Inl show ?thesis
      by (intro exI [of _ "?resp"] exI [of _ "?w'"] exI [of _ "?u"] exI [of _ es]
            exI [of _ "?l"] exI [of _ ts] exI [of _ rs])
         (simp add: error_prefix_def cross_mark_def)
  next
    case (Inr answer)
    let ?l = "\<lparr>entry_role = ''assistant'', entry_content = answer,
               entry_agent = ''coordinator'', entry_timestamp = isoformat_now E (clock w2)\<rparr>"
    let ?w' = "add_conversation E ''assistant'' answer ''coordinator'' w2"
    from assms Inr have p: "process_request E user_input w = (Inr answer, ?w')"
      using process_request_returned by simp
    have g3: "grows w2 ?w' [?l] [] []" by (rule add_conversation_grows)
    from grows_trans [OF g12 g3]
    have "conversation_history (ctx ?w') = conversation_history (ctx w) @ ?u # es @ [?l]"
      "task_history (ctx ?w') = task_history (ctx w) @ ts"
      "runs ?w' = runs w @ (coordinator_agent, user_input) # rs"
      by (simp_all add: grows_def)
    with p es rs c k n Inr show ?thesis
      by (intro exI [of _ answer] exI [of _ "?w'"] exI [of _ "?u"] exI [of _ es]
            exI [of _ "?l"] exI [of _ ts] exI [of _ rs]) simp
  qed
qed

theorem request_appends_witness:
  "\<exists>w2 w' u mid l ts rs.
     coordinator_agent_run sample_env ''AI''
       (add_conversation sample_env ''user'' ''AI'' ''user'' sample_world) = (Inr ''done'', w2) \<and>
     process_request sample_env ''AI'' sample_world = (Inr ''done'', w') \<and>
     conversation_history (ctx w') = conversation_history (ctx sample_world) @ u # mid @ [l] \<and>
     entry_role u = ''user'' \<and> entry_content u = ''AI'' \<and>
     list_all system_entry mid \<and>
     task_history (ctx w') = task_history (ctx sample_world) @ ts \<and>
     runs w' = runs sample_world @ (coordinator_agent, ''AI'') # rs \<and>
     list_all is_specialist_run rs \<and>
     entry_role l = ''assistant'' \<and> entry_content l = ''done'' \<and>
     length (filter single_specialist ts) = length rs \<and>
     map task_type (task_history (ctx w')) =
       [''research'', ''content_creation'', ''complex_analysis''] \<and>
     map fst (runs w') = [coordinator_agent, research_agent, creative_agent]"
proof -
  have "\<exists>w2. coordinator_agent_run sample_env ''AI''
       (add_conversation sample_env ''user'' ''AI'' ''user'' sample_world) = (Inr ''done'', w2)"
    by (simp add: coordinator_agent_run_def sample_defs tool_defs piece_defs validate_defs
          Let_def)
  then obtain w2 where h: "coordinator_agent_run sample_env ''AI''
       (add_conversation sample_env ''user'' ''AI'' ''user'' sample_world) = (Inr ''done'', w2)"
    by (elim exE) (rule that)
  have t: "map task_type (task_history (ctx (snd (process_request sample_env ''AI''
             sample_world)))) = [''research'', ''content_creation'', ''complex_analysis'']"
    "map fst (runs (snd (process_request sample_env ''AI'' sample_world))) =
       [coordinator_agent, research_agent, creative_agent]"
    by (simp_all add: request_defs sample_defs tool_defs piece_defs validate_defs Let_def)
  note T = request_appends [OF h]
  show ?thesis
    using T h t
    apply (elim exE conjE)
    apply (simp only: sum.case)
    apply (elim conjE)
    subgoal for response w' u mid l ts rs
      apply (rule exI [of _ w2])
      apply (rule exI [of _ w'])
      apply (rule exI [of _ u])
      apply (rule exI [of _ mid])
      apply (rule exI [of _ l])
      apply (rule exI [of _ ts])
      apply (rule exI [of _ rs])
      apply simp
      done
    done
qed



section \<open>Start of the process\<close>

lemma import_agents_without_key:
  "\<not> truthy api_key \<Longrightarrow>
   import_agents api_key = Inl (ValueError ''Please set GEMINI_API_KEY in your .env file'')"
  by (simp add: import_agents_def get_gemini_model_def)

lemma program_with_key:
  "truthy api_key \<Longrightarrow> program E api_key lines fuel = main E api_key lines fuel"
  by (simp add: program_def import_agents_def get_gemini_model_def)

text \<open>
  C9. When the variable \<open>GEMINI_API_KEY\<close> is not set, or is set to the empty text, the process
  ends while importing \<^verbatim>\<open>agents.py\<close>, with the \<open>ValueError\<close> of \<open>get_gemini_model\<close> that
  nothing catches: no language model has been run, nothing has been written, and \<open>main\<close>,
  which holds the session loop, is not reached. \<open>main\<close> has the same guard of its own: called
  without the key, it writes its three lines and returns, with no language model run and
  without the banner of the session.
\<close>

theorem missing_key_is_fatal:
  assumes "\<not> truthy api_key"
  shows "program E api_key lines fuel =
           Some (Uncaught (ValueError ''Please set GEMINI_API_KEY in your .env file'')) \<and>
         (\<exists>out. program E api_key lines fuel = Some out \<and> runs_of out = [] \<and>
                stdout_of out = []) \<and>
         (\<exists>out. main E api_key lines fuel = Some out \<and> runs_of out = [] \<and>
                stdout_of out =
                  rocket @ '' Initializing Multi-Agent System...'' @ newline @
                  cross_mark @ '' GEMINI_API_KEY not found!'' @ newline @
                  ''Please create a .env file with: GEMINI_API_KEY=your_api_key_here'' @
                  newline)"
proof -
  have p: "program E api_key lines fuel =
           Some (Uncaught (ValueError ''Please set GEMINI_API_KEY in your .env file''))"
    using import_agents_without_key [OF assms] by (simp add: program_def)
  have m: "main E api_key lines fuel =
           Some (Stopped (rocket @ '' Initializing Multi-Agent System...'' @ newline @
                  cross_mark @ '' GEMINI_API_KEY not found!'' @ newline @
                  ''Please create a .env file with: GEMINI_API_KEY=your_api_key_here'' @
                  newline))"
    using assms by (simp add: main_def Let_def)
  from p m show ?thesis by simp
qed

theorem missing_key_is_fatal_witness:
  "\<not> truthy None \<and> \<not> truthy (Some []) \<and>
   program sample_env None [''quit''] 3 =
     Some (Uncaught (ValueError ''Please set GEMINI_API_KEY in your .env file'')) \<and>
   program sample_env (Some []) [''quit''] 3 =
     Some (Uncaught (ValueError ''Please set GEMINI_API_KEY in your .env file''))"
proof -
  have n: "\<not> truthy None" and e: "\<not> truthy (Some [])"
    by (simp_all add: truthy_def)
  from missing_key_is_fatal [OF n, of sample_env "[''quit'']" 3]
       missing_key_is_fatal [OF e, of sample_env "[''quit'']" 3] n e
  show ?thesis by simp
qed

text \<open>
  With the key, the same program goes through the test request into the session; there the
  \<open>history\<close> command reports the \<open>TypeError\<close>, and \<open>quit\<close> ends the loop.
\<close>

lemma with_key_session_runs:
  "\<exists>w. program sample_env (Some ''k'') [''n'', ''history'', ''quit''] (Suc (Suc 0)) =
         Some (Ended w) \<and>
       map fst (runs w) = [coordinator_agent, research_agent, creative_agent] \<and>
       stdin w = []"
  by (simp add: program_with_key truthy_def main_def Let_def request_defs sample_defs tool_defs
        piece_defs validate_defs startswith_def print_def input_def lower_def lower_char_def
        strip_def is_space_def run_interactive_session_def banner_def RunContext_init_def
        report_error_def)

end
